theory Spec2Isabelle
  imports Main "HOL-Library.AList"
begin

section \<open>Values, exceptions and the HTTP transport\<close>

text \<open>
  Python values that flow through \<^verbatim>\<open>ring_doorbell/__init__.py\<close>: parsed JSON bodies,
  parameter values, tokens. Python's \<^verbatim>\<open>None\<close> is \<open>JNull\<close>. A dict is an association
  list in insertion order with distinct keys; it is read with \<open>map_of\<close>.
\<close>

datatype json =
    JNull
  | JBool bool
  | JInt int
  | JStr string
  | JList "json list"
  | JObj "(string \<times> json) list"

datatype exn =
    HTTPError int
  | AttributeError
  | TypeError
  | ValueError
  | KeyError
  | IndexError
  | UnboundLocalError
  | UnknownTimeZoneError
  | TransportError string

text \<open>
  A \<^verbatim>\<open>requests.Response\<close>: its status and its body as \<^verbatim>\<open>.json()\<close> parses it
  (\<open>None\<close> when the body is not JSON, where \<^verbatim>\<open>.json()\<close> raises \<^verbatim>\<open>ValueError\<close>).
\<close>

record response =
  status_code :: int
  json_body :: "json option"

text \<open>
  The requests the client dispatches over \<^verbatim>\<open>self.session\<close>: the login POST of
  \<^verbatim>\<open>_authenticate\<close> (its data and headers are constants) and the GET/PUT/POST of
  \<^verbatim>\<open>query\<close> with method, url and the parameter set that is url-encoded.
\<close>

datatype request =
    Login string
  | Send string string "(string \<times> json) list"

datatype reply = Raises exn | Returns response

text \<open>
  The transport answers a request given everything dispatched so far: its argument is
  the history of requests, newest first, the current request at its head.
\<close>

type_synonym transport = "request list \<Rightarrow> reply"

section \<open>Constants of \<^verbatim>\<open>ring_doorbell.const\<close>\<close>

text \<open>
  The module \<^verbatim>\<open>const.py\<close> is not part of the sources at hand. Its constants are
  parameters: the retry count, the API version, the not-found sentinel, the volume
  bounds, and the endpoint urls (\<^verbatim>\<open>API_URI + ENDPOINT.format(x)\<close> as a function of \<open>x\<close>).
\<close>

record ring_const =
  RETRY_TOKEN :: int
  API_VERSION :: json
  NOT_FOUND :: int
  CHIME_VOL_MIN :: int
  CHIME_VOL_MAX :: int
  DOORBELL_VOL_MIN :: int
  DOORBELL_VOL_MAX :: int
  new_session_url :: string
  devices_url :: string
  chimes_url :: "json \<Rightarrow> string"
  doorbells_url :: "json \<Rightarrow> string"
  history_url :: "json \<Rightarrow> string"

section \<open>The session: class \<^verbatim>\<open>Ring\<close>\<close>

text \<open>
  The attributes of a \<^verbatim>\<open>Ring\<close> object. \<open>session\<close> is the history of requests
  dispatched over \<^verbatim>\<open>self.session\<close>, newest first.
\<close>

record ring =
  features :: json
  is_connected :: "bool option"
  ring_id :: json
  token :: json
  params :: "(string \<times> json) list option"
  debug :: bool
  username :: string
  password :: string
  session :: "request list"

text \<open>
  A call either raises or returns; the attributes as they are at that moment come with
  both.
\<close>

datatype 'a outcome = Raise exn ring | Return 'a ring

fun state_of :: "'a outcome \<Rightarrow> ring" where
  "state_of (Raise e s) = s"
| "state_of (Return v s) = s"

text \<open>\<^verbatim>\<open>d.get(k)\<close>: \<^verbatim>\<open>None\<close> for a missing key, \<^verbatim>\<open>AttributeError\<close> when \<open>d\<close> is no dict.\<close>

fun py_get :: "json \<Rightarrow> string \<Rightarrow> exn + json" where
  "py_get (JObj d) k = Inr (case map_of d k of None \<Rightarrow> JNull | Some v \<Rightarrow> v)"
| "py_get _ k = Inl AttributeError"

text \<open>\<^verbatim>\<open>d.update(e)\<close>: a key already present keeps its place, a new key goes last.\<close>

definition dict_update :: "(string \<times> json) list \<Rightarrow> (string \<times> json) list \<Rightarrow> (string \<times> json) list" where
  "dict_update d e = fold (\<lambda>(k, v). AList.update k v) e d"

text \<open>\<^verbatim>\<open>Response.raise_for_status()\<close> raises for the statuses 400 to 599 only.\<close>

definition raise_for_status :: "response \<Rightarrow> exn option" where
  "raise_for_status r =
     (if 400 \<le> status_code r \<and> status_code r < 600 then Some (HTTPError (status_code r)) else None)"

text \<open>
  The body of the 201 branch of \<^verbatim>\<open>_authenticate\<close>: \<^verbatim>\<open>req.json().get('profile')\<close> and the
  five assignments, in the order of the source.
\<close>

definition login_success :: "ring_const \<Rightarrow> response \<Rightarrow> ring \<Rightarrow> json outcome" where
  "login_success c req s =
     (case json_body req of
        None \<Rightarrow> Raise ValueError s
      | Some body \<Rightarrow>
          (case py_get body ''profile'' of
             Inl e \<Rightarrow> Raise e s
           | Inr data \<Rightarrow>
               (case py_get data ''features'' of
                  Inl e \<Rightarrow> Raise e s
                | Inr f \<Rightarrow>
                    (case py_get data ''id'' of
                       Inl e \<Rightarrow> Raise e (s\<lparr>features := f\<rparr>)
                     | Inr i \<Rightarrow>
                         (case py_get data ''authentication_token'' of
                            Inl e \<Rightarrow>
                              Raise e (s\<lparr>features := f, ring_id := i, is_connected := Some True\<rparr>)
                          | Inr tok \<Rightarrow>
                              Return (JBool True)
                                (s\<lparr>features := f, ring_id := i, is_connected := Some True,
                                   token := tok,
                                   params := Some [(''api_version'', API_VERSION c),
                                                   (''auth_token'', tok)]\<rparr>))))))"

text \<open>
  The \<^verbatim>\<open>while loop <= attempts\<close> of \<^verbatim>\<open>_authenticate\<close>. \<open>req\<close> is the local variable of
  that name: unbound (\<open>None\<close>) until a first response arrived. An exception of the
  transport is re-raised at once.
\<close>

function authenticate_loop ::
  "ring_const \<Rightarrow> transport \<Rightarrow> int \<Rightarrow> int \<Rightarrow> response option \<Rightarrow> ring \<Rightarrow> json outcome" where
  "authenticate_loop c t attempts loop req s =
     (if loop \<le> attempts then
        (case t (Login (new_session_url c) # session s) of
           Raises e \<Rightarrow> Raise e (s\<lparr>session := Login (new_session_url c) # session s\<rparr>)
         | Returns r \<Rightarrow>
             if status_code r = 201
             then login_success c r (s\<lparr>session := Login (new_session_url c) # session s\<rparr>)
             else authenticate_loop c t attempts (loop + 1) (Some r)
                    (s\<lparr>session := Login (new_session_url c) # session s\<rparr>))
      else
        (case req of
           None \<Rightarrow> Raise UnboundLocalError (s\<lparr>is_connected := Some False\<rparr>)
         | Some r \<Rightarrow>
             (case raise_for_status r of
                Some e \<Rightarrow> Raise e (s\<lparr>is_connected := Some False\<rparr>)
              | None \<Rightarrow> Return JNull (s\<lparr>is_connected := Some False\<rparr>))))"
  by pat_completeness auto
termination
  by (relation "measure (\<lambda>(c, t, attempts, loop, req, s). nat (attempts + 1 - loop))") auto

declare authenticate_loop.simps [simp del]

definition authenticate :: "ring_const \<Rightarrow> transport \<Rightarrow> int \<Rightarrow> ring \<Rightarrow> json outcome" where
  "authenticate c t attempts s = authenticate_loop c t attempts 0 None s"

text \<open>\<^verbatim>\<open>Ring.__init__\<close>: the attributes are initialised, then \<^verbatim>\<open>_authenticate()\<close> runs.\<close>

definition Ring_init :: "ring_const \<Rightarrow> transport \<Rightarrow> string \<Rightarrow> string \<Rightarrow> bool \<Rightarrow> unit outcome" where
  "Ring_init c t user pass dbg =
     (case authenticate c t (RETRY_TOKEN c)
             \<lparr>features = JNull, is_connected = None, ring_id = JNull, token = JNull,
              params = None, debug = dbg, username = user, password = pass, session = []\<rparr> of
        Raise e s \<Rightarrow> Raise e s
      | Return v s \<Rightarrow> Return () s)"

section \<open>\<^verbatim>\<open>Ring.query\<close>\<close>

text \<open>What \<^verbatim>\<open>query\<close> returns: a parsed value (\<^verbatim>\<open>None\<close> is \<open>Json JNull\<close>) or, with \<^verbatim>\<open>raw\<close>, the response.\<close>

datatype qresult = Json json | Raw response

text \<open>
  \<^verbatim>\<open>if extra_params: params = self.params; params.update(extra_params)\<close>: the dict held
  by the session is updated in place. \<^verbatim>\<open>None\<close> and the empty dict are false.
\<close>

definition merge_extra :: "(string \<times> json) list option \<Rightarrow> ring \<Rightarrow> exn + ring" where
  "merge_extra extra s =
     (case extra of
        None \<Rightarrow> Inr s
      | Some e \<Rightarrow>
          if e = [] then Inr s
          else (case params s of
                  None \<Rightarrow> Inl AttributeError
                | Some p \<Rightarrow> Inr (s\<lparr>params := Some (dict_update p e)\<rparr>)))"

text \<open>The value returned on status 200 or 204.\<close>

definition success_result :: "string \<Rightarrow> bool \<Rightarrow> response \<Rightarrow> ring \<Rightarrow> qresult outcome" where
  "success_result method raw req s =
     (if raw then Return (Raw req) s
      else if method = ''GET'' then
        (case json_body req of None \<Rightarrow> Raise ValueError s | Some j \<Rightarrow> Return (Json j) s)
      else Return (Json JNull) s)"

text \<open>
  The \<^verbatim>\<open>while loop <= attempts\<close> of \<^verbatim>\<open>query\<close>. A method other than GET, PUT and POST
  leaves \<^verbatim>\<open>req\<close> unbound, and reading it raises. \<^verbatim>\<open>urlencode(None)\<close> raises
  \<^verbatim>\<open>TypeError\<close>.
\<close>

function query_loop ::
  "ring_const \<Rightarrow> transport \<Rightarrow> string \<Rightarrow> int \<Rightarrow> string \<Rightarrow> bool \<Rightarrow> (string \<times> json) list option
     \<Rightarrow> int \<Rightarrow> ring \<Rightarrow> qresult outcome" where
  "query_loop c t url attempts method raw extra loop s =
     (if loop \<le> attempts then
        (case merge_extra extra s of
           Inl e \<Rightarrow> Raise e s
         | Inr s1 \<Rightarrow>
             if method \<noteq> ''GET'' \<and> method \<noteq> ''PUT'' \<and> method \<noteq> ''POST''
             then Raise UnboundLocalError s1
             else
               (case params s1 of
                  None \<Rightarrow> Raise TypeError s1
                | Some p \<Rightarrow>
                    (case t (Send method url p # session s1) of
                       Raises e \<Rightarrow> Raise e (s1\<lparr>session := Send method url p # session s1\<rparr>)
                     | Returns req \<Rightarrow>
                         if status_code req = 401 then
                           (case authenticate c t (RETRY_TOKEN c)
                                   (s1\<lparr>session := Send method url p # session s1,
                                       is_connected := Some False\<rparr>) of
                              Raise e s3 \<Rightarrow> Raise e s3
                            | Return v s3 \<Rightarrow>
                                query_loop c t url attempts method raw extra (loop + 1) s3)
                         else if status_code req = 200 \<or> status_code req = 204 then
                           success_result method raw req
                             (s1\<lparr>session := Send method url p # session s1\<rparr>)
                         else
                           query_loop c t url attempts method raw extra (loop + 1)
                             (s1\<lparr>session := Send method url p # session s1\<rparr>))))
      else Return (Json JNull) s)"
  by pat_completeness auto
termination
  by (relation "measure (\<lambda>(c, t, url, attempts, method, raw, extra, loop, s). nat (attempts + 1 - loop))") auto

declare query_loop.simps [simp del]

text \<open>\<^verbatim>\<open>query\<close>: in debug mode a session that is not connected authenticates first.\<close>

definition query ::
  "ring_const \<Rightarrow> transport \<Rightarrow> ring \<Rightarrow> string \<Rightarrow> int \<Rightarrow> string \<Rightarrow> bool \<Rightarrow> (string \<times> json) list option
     \<Rightarrow> qresult outcome" where
  "query c t s url attempts method raw extra =
     (if debug s \<and> is_connected s \<noteq> Some True then
        (case authenticate c t (RETRY_TOKEN c) s of
           Raise e s' \<Rightarrow> Raise e s'
         | Return v s' \<Rightarrow> query_loop c t url attempts method raw extra 0 s')
      else query_loop c t url attempts method raw extra 0 s)"

section \<open>Device handles: \<^verbatim>\<open>RingGeneric\<close>, \<^verbatim>\<open>RingChime\<close>, \<^verbatim>\<open>RingDoorBell\<close>\<close>

text \<open>
  The attributes of a device handle. The \<^verbatim>\<open>Ring\<close> object it refers to (\<^verbatim>\<open>self._ring\<close>) is
  shared with every other handle, so it is passed to each operation and returned by it.
\<close>

record device =
  attrs :: json
  dev_debug :: bool
  family :: string
  name :: json

text \<open>\<^verbatim>\<open>for x in v\<close>: a list yields its elements, a dict its keys, a string its characters.\<close>

fun py_iter :: "json \<Rightarrow> exn + json list" where
  "py_iter (JList xs) = Inr xs"
| "py_iter (JObj d) = Inr (map (\<lambda>kv. JStr (fst kv)) d)"
| "py_iter (JStr cs) = Inr (map (\<lambda>ch. JStr [ch]) cs)"
| "py_iter _ = Inl TypeError"

text \<open>\<^verbatim>\<open>obj[k]\<close> for a string key \<open>k\<close>: \<^verbatim>\<open>KeyError\<close> on a dict without it, \<^verbatim>\<open>TypeError\<close> elsewhere.\<close>

fun py_getitem :: "json \<Rightarrow> string \<Rightarrow> exn + json" where
  "py_getitem (JObj d) k = (case map_of d k of None \<Rightarrow> Inl KeyError | Some v \<Rightarrow> Inr v)"
| "py_getitem _ k = Inl TypeError"

text \<open>\<^verbatim>\<open>lst[index]\<close> for an integer index; a negative index counts from the end.\<close>

fun py_index :: "json \<Rightarrow> int \<Rightarrow> exn + json" where
  "py_index (JList xs) i =
     (if 0 \<le> i \<and> i < int (length xs) then Inr (xs ! nat i)
      else if i < 0 \<and> 0 \<le> int (length xs) + i then Inr (xs ! nat (int (length xs) + i))
      else Inl IndexError)"
| "py_index (JStr cs) i =
     (if 0 \<le> i \<and> i < int (length cs) then Inr (JStr [cs ! nat i])
      else if i < 0 \<and> 0 \<le> int (length cs) + i then Inr (JStr [cs ! nat (int (length cs) + i)])
      else Inl IndexError)"
| "py_index (JObj d) i = Inl KeyError"
| "py_index _ i = Inl TypeError"

text \<open>
  Modelled from the spec: \<^verbatim>\<open>_locator\<close> of \<^verbatim>\<open>ring_doorbell.utils\<close> is not among the sources.
  The spec has it locate "the entry whose description equals this handle's name within
  the family's sub-list (first match; linear scan)"; without a match the result is the
  not-found sentinel. An entry that is no dict, or a sub-list that is no list, holds no
  match.
\<close>

fun locator_from :: "int \<Rightarrow> json list \<Rightarrow> string \<Rightarrow> json \<Rightarrow> int \<Rightarrow> int" where
  "locator_from nf [] key v i = nf"
| "locator_from nf (d # ds) key v i =
     (if (case d of JObj ob \<Rightarrow> map_of ob key = Some v | _ \<Rightarrow> False) then i
      else locator_from nf ds key v (i + 1))"

definition locator :: "ring_const \<Rightarrow> json \<Rightarrow> string \<Rightarrow> json \<Rightarrow> int" where
  "locator c lst key v =
     (case lst of JList ds \<Rightarrow> locator_from (NOT_FOUND c) ds key v 0 | _ \<Rightarrow> NOT_FOUND c)"

text \<open>
  \<^verbatim>\<open>RingGeneric._get_attrs\<close>. The \<^verbatim>\<open>try\<close> covers the query, the \<^verbatim>\<open>.get\<close> and the
  locator, and catches \<^verbatim>\<open>AttributeError\<close> only; the assignment of \<^verbatim>\<open>lst[index]\<close> is
  outside of it.
\<close>

definition get_attrs :: "ring_const \<Rightarrow> transport \<Rightarrow> device \<Rightarrow> ring \<Rightarrow> (json \<times> device) outcome" where
  "get_attrs c t dev s =
     (case query c t s (devices_url c) (RETRY_TOKEN c) ''GET'' False None of
        Raise e s' \<Rightarrow> if e = AttributeError then Return (JNull, dev) s' else Raise e s'
      | Return v s' \<Rightarrow>
          (case v of
             Raw r \<Rightarrow> Return (JNull, dev) s'
           | Json j \<Rightarrow>
               (case py_get j (family dev) of
                  Inl e \<Rightarrow> if e = AttributeError then Return (JNull, dev) s' else Raise e s'
                | Inr lst \<Rightarrow>
                    if locator c lst ''description'' (name dev) = NOT_FOUND c
                    then Return (JNull, dev) s'
                    else
                      (case py_index lst (locator c lst ''description'' (name dev)) of
                         Inl e \<Rightarrow> Raise e s'
                       | Inr a \<Rightarrow> Return (JBool True, dev\<lparr>attrs := a\<rparr>) s'))))"

text \<open>\<^verbatim>\<open>RingGeneric.update\<close> calls \<^verbatim>\<open>_get_attrs\<close> and drops its result.\<close>

definition update :: "ring_const \<Rightarrow> transport \<Rightarrow> device \<Rightarrow> ring \<Rightarrow> device outcome" where
  "update c t dev s =
     (case get_attrs c t dev s of
        Raise e s' \<Rightarrow> Raise e s'
      | Return r s' \<Rightarrow> Return (snd r) s')"

text \<open>The read accessors of \<^verbatim>\<open>RingGeneric\<close>: each is \<^verbatim>\<open>self._attrs.get(key)\<close>.\<close>

definition account_id :: "device \<Rightarrow> exn + json" where
  "account_id dev = py_get (attrs dev) ''id''"

definition address :: "device \<Rightarrow> exn + json" where
  "address dev = py_get (attrs dev) ''address''"

definition firmware :: "device \<Rightarrow> exn + json" where
  "firmware dev = py_get (attrs dev) ''firmware_version''"

definition device_id :: "device \<Rightarrow> exn + json" where
  "device_id dev = py_get (attrs dev) ''device_id''"

definition latitude :: "device \<Rightarrow> exn + json" where
  "latitude dev = py_get (attrs dev) ''latitude''"

definition longitude :: "device \<Rightarrow> exn + json" where
  "longitude dev = py_get (attrs dev) ''longitude''"

definition kind :: "device \<Rightarrow> exn + json" where
  "kind dev = py_get (attrs dev) ''kind''"

definition timezone :: "device \<Rightarrow> exn + json" where
  "timezone dev = py_get (attrs dev) ''time_zone''"

text \<open>
  \<^verbatim>\<open>Ring.has_subscription\<close>: the one accessor that catches the \<^verbatim>\<open>AttributeError\<close> of an
  unset attribute and answers with the not-found sentinel.
\<close>

definition has_subscription :: "ring_const \<Rightarrow> ring \<Rightarrow> json" where
  "has_subscription c s =
     (case py_get (features s) ''subscriptions_enabled'' of
        Inl e \<Rightarrow> JInt (NOT_FOUND c)
      | Inr v \<Rightarrow> v)"

text \<open>The constructors set the attributes and call \<^verbatim>\<open>update()\<close>.\<close>

definition RingChime_init :: "ring_const \<Rightarrow> transport \<Rightarrow> json \<Rightarrow> ring \<Rightarrow> device outcome" where
  "RingChime_init c t nm s =
     update c t \<lparr>attrs = JNull, dev_debug = debug s, family = ''chimes'', name = nm\<rparr> s"

definition RingDoorBell_init :: "ring_const \<Rightarrow> transport \<Rightarrow> json \<Rightarrow> ring \<Rightarrow> device outcome" where
  "RingDoorBell_init c t nm s =
     update c t \<lparr>attrs = JNull, dev_debug = debug s, family = ''doorbots'', name = nm\<rparr> s"

section \<open>The volume setters\<close>

text \<open>\<^verbatim>\<open>str(n)\<close> of an integer: its decimal digits.\<close>

fun str_nat :: "nat \<Rightarrow> string" where
  "str_nat n =
     (if n < 10 then [''0123456789'' ! n]
      else str_nat (n div 10) @ [''0123456789'' ! (n mod 10)])"

declare str_nat.simps [simp del]

definition str_int :: "int \<Rightarrow> string" where
  "str_int i = (if i < 0 then CHR ''-'' # str_nat (nat (- i)) else str_nat (nat i))"

text \<open>
  \<^verbatim>\<open>isinstance(value, int)\<close> holds of the integers and, \<^verbatim>\<open>bool\<close> being a subclass of
  \<^verbatim>\<open>int\<close>, of the booleans. For such a value: the number it compares as, and \<^verbatim>\<open>str(value)\<close>.
\<close>

fun as_int :: "json \<Rightarrow> (int \<times> string) option" where
  "as_int (JInt i) = Some (i, str_int i)"
| "as_int (JBool b) = Some (if b then 1 else 0, if b then ''True'' else ''False'')"
| "as_int _ = None"

text \<open>
  The setter of \<^verbatim>\<open>RingChime.volume\<close>: the guard, the parameter bundle, the url (whose
  \<^verbatim>\<open>self.account_id\<close> may raise), the PUT and the refresh.
\<close>

definition chime_set_volume ::
  "ring_const \<Rightarrow> transport \<Rightarrow> device \<Rightarrow> json \<Rightarrow> ring \<Rightarrow> (json \<times> device) outcome" where
  "chime_set_volume c t dev v s =
     (case as_int v of
        None \<Rightarrow> Return (JBool False, dev) s
      | Some (n, txt) \<Rightarrow>
          if \<not> (n \<ge> CHIME_VOL_MIN c \<and> n \<le> CHIME_VOL_MAX c) then Return (JBool False, dev) s
          else
            (case account_id dev of
               Inl e \<Rightarrow> Raise e s
             | Inr aid \<Rightarrow>
                 (case query c t s (chimes_url c aid) (RETRY_TOKEN c) ''PUT'' False
                         (Some [(''chime[description]'', name dev),
                                (''chime[settings][volume]'', JStr txt)]) of
                    Raise e s' \<Rightarrow> Raise e s'
                  | Return r s' \<Rightarrow>
                      (case update c t dev s' of
                         Raise e s'' \<Rightarrow> Raise e s''
                       | Return dev' s'' \<Rightarrow> Return (JBool True, dev') s''))))"

text \<open>The setter of \<^verbatim>\<open>RingDoorBell.volume\<close>.\<close>

definition doorbell_set_volume ::
  "ring_const \<Rightarrow> transport \<Rightarrow> device \<Rightarrow> json \<Rightarrow> ring \<Rightarrow> (json \<times> device) outcome" where
  "doorbell_set_volume c t dev v s =
     (case as_int v of
        None \<Rightarrow> Return (JBool False, dev) s
      | Some (n, txt) \<Rightarrow>
          if \<not> (n \<ge> DOORBELL_VOL_MIN c \<and> n \<le> DOORBELL_VOL_MAX c) then Return (JBool False, dev) s
          else
            (case account_id dev of
               Inl e \<Rightarrow> Raise e s
             | Inr aid \<Rightarrow>
                 (case query c t s (doorbells_url c aid) (RETRY_TOKEN c) ''PUT'' False
                         (Some [(''doorbot[description]'', name dev),
                                (''doorbot[settings][doorbell_volume]'', JStr txt)]) of
                    Raise e s' \<Rightarrow> Raise e s'
                  | Return r s' \<Rightarrow>
                      (case update c t dev s' of
                         Raise e s'' \<Rightarrow> Raise e s''
                       | Return dev' s'' \<Rightarrow> Return (JBool True, dev') s''))))"

section \<open>The device directory: \<^verbatim>\<open>Ring.__devices\<close>\<close>

text \<open>\<^verbatim>\<open>list(obj['description'] for obj in req)\<close>, once \<open>req\<close> is known to iterate.\<close>

fun descriptions :: "json list \<Rightarrow> exn + json list" where
  "descriptions [] = Inr []"
| "descriptions (obj # objs) =
     (case py_getitem obj ''description'' of
        Inl e \<Rightarrow> Inl e
      | Inr d \<Rightarrow> (case descriptions objs of Inl e \<Rightarrow> Inl e | Inr ds \<Rightarrow> Inr (d # ds)))"

text \<open>
  The \<^verbatim>\<open>except AttributeError: pass\<close> of \<^verbatim>\<open>__devices\<close>: the list built so far is
  returned; any other exception propagates.
\<close>

definition except_AttributeError :: "exn \<Rightarrow> device list \<Rightarrow> ring \<Rightarrow> device list outcome" where
  "except_AttributeError e lst s = (if e = AttributeError then Return lst s else Raise e s)"

text \<open>The \<^verbatim>\<open>for member in ...: lst.append(Device(self, member))\<close> loop.\<close>

fun append_devices ::
  "(json \<Rightarrow> ring \<Rightarrow> device outcome) \<Rightarrow> json list \<Rightarrow> device list \<Rightarrow> ring \<Rightarrow> device list outcome" where
  "append_devices mk [] lst s = Return lst s"
| "append_devices mk (member # members) lst s =
     (case mk member s of
        Raise e s' \<Rightarrow> except_AttributeError e lst s'
      | Return d s' \<Rightarrow> append_devices mk members (lst @ [d]) s')"

text \<open>One \<^verbatim>\<open>if device_type == ...\<close> block of \<^verbatim>\<open>__devices\<close>, for the family key \<open>fam\<close>.\<close>

definition devices_block ::
  "ring_const \<Rightarrow> transport \<Rightarrow> string \<Rightarrow> (json \<Rightarrow> ring \<Rightarrow> device outcome) \<Rightarrow> ring \<Rightarrow> device list outcome" where
  "devices_block c t fam mk s =
     (case query c t s (devices_url c) (RETRY_TOKEN c) ''GET'' False None of
        Raise e s' \<Rightarrow> except_AttributeError e [] s'
      | Return v s' \<Rightarrow>
          (case v of
             Raw r \<Rightarrow> except_AttributeError AttributeError [] s'
           | Json j \<Rightarrow>
               (case py_get j fam of
                  Inl e \<Rightarrow> except_AttributeError e [] s'
                | Inr req \<Rightarrow>
                    (case py_iter req of
                       Inl e \<Rightarrow> except_AttributeError e [] s'
                     | Inr objs \<Rightarrow>
                         (case descriptions objs of
                            Inl e \<Rightarrow> except_AttributeError e [] s'
                          | Inr members \<Rightarrow> append_devices mk members [] s')))))"

text \<open>
  \<^verbatim>\<open>Ring.__devices\<close>. The two \<^verbatim>\<open>if\<close> blocks test the same string against different
  literals, so at most one runs.
\<close>

definition private_devices ::
  "ring_const \<Rightarrow> transport \<Rightarrow> ring \<Rightarrow> string \<Rightarrow> device list outcome" where
  "private_devices c t s device_type =
     (if device_type = ''chime'' then devices_block c t ''chimes'' (RingChime_init c t) s
      else if device_type = ''doorbell'' then devices_block c t ''doorbots'' (RingDoorBell_init c t) s
      else Return [] s)"

definition chimes :: "ring_const \<Rightarrow> transport \<Rightarrow> ring \<Rightarrow> device list outcome" where
  "chimes c t s = private_devices c t s ''chime''"

definition doorbells :: "ring_const \<Rightarrow> transport \<Rightarrow> ring \<Rightarrow> device list outcome" where
  "doorbells c t s = private_devices c t s ''doorbell''"

section \<open>\<^verbatim>\<open>RingDoorBell.history\<close>\<close>

text \<open>
  The date and time-zone libraries are outside the repository; they are parameters:
  \<^verbatim>\<open>pytz.timezone(name)\<close>, the UTC datetime built from \<^verbatim>\<open>strptime\<close> of a
  \<^verbatim>\<open>created_at\<close> value, and \<^verbatim>\<open>astimezone\<close>. Datetimes and zones are values of \<open>json\<close>.
\<close>

record timelib =
  pytz_timezone :: "string \<Rightarrow> exn + json"
  utc_datetime :: "json \<Rightarrow> exn + json"
  astimezone :: "json \<Rightarrow> json \<Rightarrow> json"

text \<open>The body of the \<^verbatim>\<open>for entry in response\<close> loop; \<open>mytz\<close> is set when \<^verbatim>\<open>timezone\<close> is true.\<close>

definition convert_entry :: "timelib \<Rightarrow> json option \<Rightarrow> json \<Rightarrow> exn + json" where
  "convert_entry lib mytz entry =
     (case py_getitem entry ''created_at'' of
        Inl e \<Rightarrow> Inl e
      | Inr created \<Rightarrow>
          (case utc_datetime lib created of
             Inl e \<Rightarrow> Inl e
           | Inr utc_dt \<Rightarrow>
               (case entry of
                  JObj ob \<Rightarrow>
                    Inr (JObj (AList.update ''created_at''
                                 (case mytz of None \<Rightarrow> utc_dt | Some z \<Rightarrow> astimezone lib utc_dt z) ob))
                | _ \<Rightarrow> Inl TypeError)))"

fun convert_entries :: "timelib \<Rightarrow> json option \<Rightarrow> json list \<Rightarrow> exn + json list" where
  "convert_entries lib mytz [] = Inr []"
| "convert_entries lib mytz (entry # entries) =
     (case convert_entry lib mytz entry of
        Inl e \<Rightarrow> Inl e
      | Inr entry' \<Rightarrow>
          (case convert_entries lib mytz entries of
             Inl e \<Rightarrow> Inl e
           | Inr entries' \<Rightarrow> Inr (entry' # entries')))"

text \<open>\<^verbatim>\<open>if timezone: mytz = pytz.timezone(timezone)\<close>; \<^verbatim>\<open>None\<close> and the empty string are false.\<close>

definition lookup_timezone :: "timelib \<Rightarrow> string option \<Rightarrow> exn + json option" where
  "lookup_timezone lib tz =
     (case tz of
        None \<Rightarrow> Inr None
      | Some nm \<Rightarrow>
          if nm = [] then Inr None
          else (case pytz_timezone lib nm of Inl e \<Rightarrow> Inl e | Inr z \<Rightarrow> Inr (Some z)))"

text \<open>
  \<^verbatim>\<open>RingDoorBell.history\<close>: the query with the \<^verbatim>\<open>limit\<close> parameter, the zone lookup, then
  the loop over the response, which is iterated whatever the query returned. The entries
  of a list are rewritten in place and the list is returned.
\<close>

definition history ::
  "ring_const \<Rightarrow> timelib \<Rightarrow> transport \<Rightarrow> device \<Rightarrow> int \<Rightarrow> string option \<Rightarrow> ring \<Rightarrow> json outcome" where
  "history c lib t dev limit tz s =
     (case account_id dev of
        Inl e \<Rightarrow> Raise e s
      | Inr aid \<Rightarrow>
          (case query c t s (history_url c aid) (RETRY_TOKEN c) ''GET'' False
                  (Some [(''limit'', JStr (str_int limit))]) of
             Raise e s' \<Rightarrow> Raise e s'
           | Return v s' \<Rightarrow>
               (case lookup_timezone lib tz of
                  Inl e \<Rightarrow> Raise e s'
                | Inr mytz \<Rightarrow>
                    (case v of
                       Raw r \<Rightarrow> Raise TypeError s'
                     | Json response \<Rightarrow>
                         (case py_iter response of
                            Inl e \<Rightarrow> Raise e s'
                          | Inr entries \<Rightarrow>
                              (case convert_entries lib mytz entries of
                                 Inl e \<Rightarrow> Raise e s'
                               | Inr entries' \<Rightarrow>
                                   Return (case response of JList xs \<Rightarrow> JList entries' | _ \<Rightarrow> response)
                                     s'))))))"

section \<open>Observations on sessions and sample values\<close>


text \<open>The number of login requests a session has dispatched so far.\<close>

definition is_login :: "request \<Rightarrow> bool" where
  "is_login q = (case q of Login u \<Rightarrow> True | Send m u p \<Rightarrow> False)"

definition logins :: "ring \<Rightarrow> nat" where
  "logins s = length (filter is_login (session s))"

text \<open>
  A 201 response whose body holds a \<^verbatim>\<open>profile\<close> object with a token that is not
  \<^verbatim>\<open>None\<close>.
\<close>

definition well_formed_login :: "response \<Rightarrow> bool" where
  "well_formed_login r =
     (case json_body r of
        Some (JObj body) \<Rightarrow>
          (case map_of body ''profile'' of
             Some (JObj prof) \<Rightarrow>
               (case map_of prof ''authentication_token'' of
                  Some tok \<Rightarrow> tok \<noteq> JNull
                | None \<Rightarrow> False)
           | _ \<Rightarrow> False)
      | _ \<Rightarrow> False)"

text \<open>
  A set of constants, some transports, a connected session and two device handles, at
  which the theorems below are instantiated.
\<close>

definition sample_const :: ring_const where
  "sample_const =
     \<lparr>RETRY_TOKEN = 3, API_VERSION = JStr ''9'', NOT_FOUND = - 1,
      CHIME_VOL_MIN = 0, CHIME_VOL_MAX = 10, DOORBELL_VOL_MIN = 0, DOORBELL_VOL_MAX = 11,
      new_session_url = ''/session'', devices_url = ''/ring_devices'',
      chimes_url = (\<lambda>aid. ''/chimes''), doorbells_url = (\<lambda>aid. ''/doorbots''),
      history_url = (\<lambda>aid. ''/history'')\<rparr>"

definition always :: "int \<Rightarrow> json option \<Rightarrow> transport" where
  "always code body = (\<lambda>h. Returns \<lparr>status_code = code, json_body = body\<rparr>)"

definition refusing :: transport where
  "refusing = (\<lambda>h. Raises (TransportError ''connection refused''))"

definition sample_profile :: json where
  "sample_profile =
     JObj [(''profile'',
            JObj [(''id'', JInt 7), (''authentication_token'', JStr ''fresh''),
                  (''features'', JObj [(''subscriptions_enabled'', JBool True)])])]"

text \<open>
  A transport that accepts every login, finds the token expired on the first query it
  sees and answers every later query with an empty list.
\<close>

definition expiring :: transport where
  "expiring h =
     (case h of
        [] \<Rightarrow> Raises (TransportError [])
      | Login u # rest \<Rightarrow> Returns \<lparr>status_code = 201, json_body = Some sample_profile\<rparr>
      | Send m u p # rest \<Rightarrow>
          if list_all is_login rest then Returns \<lparr>status_code = 401, json_body = None\<rparr>
          else Returns \<lparr>status_code = 200, json_body = Some (JList [])\<rparr>)"

definition sample_ring :: ring where
  "sample_ring =
     \<lparr>features = JNull, is_connected = Some True, ring_id = JInt 7, token = JStr ''tok'',
      params = Some [(''api_version'', JStr ''9''), (''auth_token'', JStr ''tok'')],
      debug = False, username = ''user'', password = ''secret'', session = []\<rparr>"

text \<open>
  A session in debug mode that an earlier query left disconnected: a 401 was followed by
  a re-authentication whose attempts were all answered with a status that is neither 201
  nor an error, so that \<^verbatim>\<open>_authenticate\<close> returned without raising and without a new token.
\<close>

definition stale_ring :: ring where
  "stale_ring =
     \<lparr>features = JNull, is_connected = Some False, ring_id = JInt 7, token = JStr ''tok'',
      params = Some [(''api_version'', JStr ''9''), (''auth_token'', JStr ''tok'')],
      debug = True, username = ''user'', password = ''secret'', session = []\<rparr>"

text \<open>The session the constructor returns when every login attempt is answered with 300.\<close>

definition unconnected_ring :: ring where
  "unconnected_ring =
     \<lparr>features = JNull, is_connected = Some False, ring_id = JNull, token = JNull,
      params = None, debug = False, username = ''user'', password = ''secret'',
      session = [Login ''/session'', Login ''/session'', Login ''/session'', Login ''/session'']\<rparr>"

definition sample_chime :: device where
  "sample_chime =
     \<lparr>attrs = JObj [(''id'', JInt 5), (''description'', JStr ''Hall'')],
      dev_debug = False, family = ''chimes'', name = JStr ''Hall''\<rparr>"

definition porch_chime :: device where
  "porch_chime = \<lparr>attrs = JNull, dev_debug = False, family = ''chimes'', name = JStr ''Porch''\<rparr>"

definition hall_devices :: json where
  "hall_devices =
     JObj [(''chimes'', JList [JObj [(''description'', JStr ''Hall''), (''id'', JInt 5)]])]"

definition sample_timelib :: timelib where
  "sample_timelib =
     \<lparr>pytz_timezone = (\<lambda>nm. if nm = ''UTC'' then Inr (JStr nm) else Inl UnknownTimeZoneError),
      utc_datetime = (\<lambda>v. case v of JStr cs \<Rightarrow> Inr (JStr cs) | _ \<Rightarrow> Inl TypeError),
      astimezone = (\<lambda>dt z. dt)\<rparr>"

section \<open>Merging parameter sets\<close>

lemma update_commute_present:
  "k \<in> fst ` set l \<Longrightarrow> k \<noteq> k' \<Longrightarrow>
   AList.update k' v' (AList.update k v l) = AList.update k v (AList.update k' v' l)"
  by (induction l) auto

lemma keys_dict_update: "fst ` set (dict_update d e) = fst ` set d \<union> fst ` set e"
proof (induction e arbitrary: d)
  case Nil
  then show ?case by (simp add: dict_update_def)
next
  case (Cons a e)
  obtain k v where a: "a = (k, v)" by (cases a)
  have "dict_update d (a # e) = dict_update (AList.update k v d) e"
    by (simp add: a dict_update_def)
  then show ?case using Cons.IH[of "AList.update k v d"] a
    by (simp add: AList.dom_update)
qed

lemma map_of_dict_update_other:
  "k \<notin> fst ` set e \<Longrightarrow> map_of (dict_update d e) k = map_of d k"
  unfolding dict_update_def
  by (induction e arbitrary: d) (auto simp: AList.update_conv')

lemma dict_update_after_update:
  "k \<in> fst ` set y \<Longrightarrow>
   dict_update (AList.update k v y) e =
     (if k \<in> fst ` set e then dict_update y e else AList.update k v (dict_update y e))"
proof (induction e arbitrary: y)
  case Nil
  then show ?case by (simp add: dict_update_def)
next
  case (Cons a e)
  obtain k' v' where a: "a = (k', v')" by (cases a)
  show ?case
  proof (cases "k' = k")
    case True
    then show ?thesis using a by (simp add: dict_update_def)
  next
    case False
    have "k \<in> fst ` set (AList.update k' v' y)" using Cons.prems by (simp add: AList.dom_update)
    from Cons.IH[OF this, unfolded dict_update_def] show ?thesis
      using a False Cons.prems
      by (simp add: dict_update_def update_commute_present)
  qed
qed

lemma dict_update_idem: "dict_update (dict_update d e) e = dict_update d e"
proof (induction e arbitrary: d)
  case Nil
  then show ?case by (simp add: dict_update_def)
next
  case (Cons a e)
  obtain k v where a: "a = (k, v)" by (cases a)
  let ?p = "AList.update k v d"
  let ?y = "dict_update ?p e"
  have y: "dict_update d (a # e) = ?y" by (simp add: a dict_update_def)
  have ky: "k \<in> fst ` set ?y" by (simp add: keys_dict_update AList.dom_update)
  have "dict_update ?y (a # e) = dict_update (AList.update k v ?y) e"
    by (simp add: a dict_update_def)
  also have "\<dots> = (if k \<in> fst ` set e then dict_update ?y e else AList.update k v (dict_update ?y e))"
    by (rule dict_update_after_update[OF ky])
  also have "\<dots> = ?y"
  proof (cases "k \<in> fst ` set e")
    case True
    then show ?thesis by (simp add: Cons.IH)
  next
    case False
    then have "map_of ?y k = Some v"
      by (simp add: map_of_dict_update_other AList.update_conv')
    then show ?thesis using False by (simp add: Cons.IH AList.update_triv)
  qed
  finally show ?case by (simp add: y)
qed

lemma merge_extra_Some:
  "params s = Some p \<Longrightarrow>
   merge_extra extra s = Inr (s\<lparr>params := Some (dict_update p (case extra of None \<Rightarrow> [] | Some e \<Rightarrow> e))\<rparr>)"
  by (auto simp: merge_extra_def dict_update_def split: option.splits)

section \<open>The retry loops\<close>

lemma nat_step: "loop \<le> attempts \<Longrightarrow> nat (attempts + 1 - loop) = Suc (nat (attempts + 1 - (loop + 1)))"
  by simp

lemma authenticate_loop_no_error:
  assumes "\<forall>h. \<exists>r. t (Login (new_session_url c) # h) = Returns r \<and> status_code r \<noteq> 201 \<and>
             \<not> (400 \<le> status_code r \<and> status_code r < 600)"
    and "loop \<le> attempts \<or> (\<exists>r. req = Some r \<and> raise_for_status r = None)"
  shows "authenticate_loop c t attempts loop req s =
     Return JNull
       (s\<lparr>session := replicate (nat (attempts + 1 - loop)) (Login (new_session_url c)) @ session s,
          is_connected := Some False\<rparr>)"
  using assms
proof (induction c t attempts loop req s rule: authenticate_loop.induct)
  case (1 c t attempts loop req s)
  let ?L = "Login (new_session_url c)"
  show ?case
  proof (cases "loop \<le> attempts")
    case True
    obtain r where r: "t (?L # session s) = Returns r" "status_code r \<noteq> 201"
        "\<not> (400 \<le> status_code r \<and> status_code r < 600)"
      using "1.prems"(1) by blast
    have nr: "raise_for_status r = None" using r(3) by (simp add: raise_for_status_def)
    have ih: "authenticate_loop c t attempts (loop + 1) (Some r) (s\<lparr>session := ?L # session s\<rparr>) =
        Return JNull
         (s\<lparr>session := ?L # session s,
            session := replicate (nat (attempts + 1 - (loop + 1))) ?L @ ?L # session s,
            is_connected := Some False\<rparr>)"
      using "1.IH"[OF True r(1) r(2) "1.prems"(1)] nr by simp
    show ?thesis
      by (subst authenticate_loop.simps)
         (simp add: True r ih nat_step[OF True] replicate_app_Cons_same)
  next
    case False
    then obtain r where "req = Some r" "raise_for_status r = None" using "1.prems"(2) by blast
    then show ?thesis using False
      by (subst authenticate_loop.simps) simp
  qed
qed

lemma well_formed_loginD:
  assumes "well_formed_login r"
  obtains body prof tok where "json_body r = Some (JObj body)"
    "map_of body ''profile'' = Some (JObj prof)"
    "map_of prof ''authentication_token'' = Some tok" "tok \<noteq> JNull"
proof -
  from assms obtain b where b: "json_body r = Some b"
    by (cases "json_body r") (simp_all add: well_formed_login_def)
  from assms b obtain body where body: "b = JObj body"
    by (cases b) (simp_all add: well_formed_login_def)
  from assms b body obtain pr where pr: "map_of body ''profile'' = Some pr"
    by (cases "map_of body ''profile''") (simp_all add: well_formed_login_def)
  from assms b body pr obtain prof where prof: "pr = JObj prof"
    by (cases pr) (simp_all add: well_formed_login_def)
  from assms b body pr prof obtain tok where tok: "map_of prof ''authentication_token'' = Some tok"
    by (cases "map_of prof ''authentication_token''") (simp_all add: well_formed_login_def)
  from assms b body pr prof tok have "tok \<noteq> JNull"
    by (simp add: well_formed_login_def)
  then show ?thesis using that b body pr prof tok by blast
qed

lemma login_success_explicit:
  assumes "json_body r = Some (JObj body)"
    and "map_of body ''profile'' = Some (JObj prof)"
    and "map_of prof ''authentication_token'' = Some tok"
  shows "login_success c r s =
     Return (JBool True)
       (s\<lparr>features := (case map_of prof ''features'' of None \<Rightarrow> JNull | Some v \<Rightarrow> v),
          ring_id := (case map_of prof ''id'' of None \<Rightarrow> JNull | Some v \<Rightarrow> v),
          is_connected := Some True, token := tok,
          params := Some [(''api_version'', API_VERSION c), (''auth_token'', tok)]\<rparr>)"
  by (simp add: login_success_def assms)

lemma authenticate_loop_outcome:
  assumes "\<forall>h. (\<exists>e. t (Login (new_session_url c) # h) = Raises e) \<or>
               (\<exists>r. t (Login (new_session_url c) # h) = Returns r \<and>
                  (if status_code r = 201 then well_formed_login r
                   else 400 \<le> status_code r \<and> status_code r < 600))"
    and "loop \<le> attempts"
  shows "(\<exists>s' k r body prof.
            authenticate_loop c t attempts loop req s = Return (JBool True) s' \<and>
            1 \<le> k \<and> k \<le> nat (attempts + 1 - loop) \<and>
            session s' = replicate k (Login (new_session_url c)) @ session s \<and>
            t (replicate k (Login (new_session_url c)) @ session s) = Returns r \<and>
            status_code r = 201 \<and> json_body r = Some (JObj body) \<and>
            map_of body ''profile'' = Some (JObj prof) \<and>
            map_of prof ''authentication_token'' = Some (token s') \<and>
            is_connected s' = Some True \<and> token s' \<noteq> JNull \<and>
            params s' = Some [(''api_version'', API_VERSION c), (''auth_token'', token s')]) \<or>
         (\<exists>r. t (replicate (nat (attempts + 1 - loop)) (Login (new_session_url c)) @ session s) =
                 Returns r \<and>
              400 \<le> status_code r \<and> status_code r < 600 \<and>
              authenticate_loop c t attempts loop req s =
                Raise (HTTPError (status_code r))
                  (s\<lparr>session := replicate (nat (attempts + 1 - loop)) (Login (new_session_url c))
                                 @ session s,
                     is_connected := Some False\<rparr>)) \<or>
         (\<exists>k e. 1 \<le> k \<and> k \<le> nat (attempts + 1 - loop) \<and>
              t (replicate k (Login (new_session_url c)) @ session s) = Raises e \<and>
              authenticate_loop c t attempts loop req s =
                Raise e (s\<lparr>session := replicate k (Login (new_session_url c)) @ session s\<rparr>))"
  using assms
proof (induction c t attempts loop req s rule: authenticate_loop.induct)
  case (1 c t attempts loop req s)
  let ?L = "Login (new_session_url c)"
  let ?s1 = "s\<lparr>session := ?L # session s\<rparr>"
  let ?n = "nat (attempts + 1 - loop)"
  let ?A = "\<lambda>l q x. \<exists>s' k r body prof.
            authenticate_loop c t attempts l q x = Return (JBool True) s' \<and>
            1 \<le> k \<and> k \<le> nat (attempts + 1 - l) \<and>
            session s' = replicate k ?L @ session x \<and>
            t (replicate k ?L @ session x) = Returns r \<and>
            status_code r = 201 \<and> json_body r = Some (JObj body) \<and>
            map_of body ''profile'' = Some (JObj prof) \<and>
            map_of prof ''authentication_token'' = Some (token s') \<and>
            is_connected s' = Some True \<and> token s' \<noteq> JNull \<and>
            params s' = Some [(''api_version'', API_VERSION c), (''auth_token'', token s')]"
  let ?B = "\<lambda>l q x. \<exists>r. t (replicate (nat (attempts + 1 - l)) ?L @ session x) = Returns r \<and>
              400 \<le> status_code r \<and> status_code r < 600 \<and>
              authenticate_loop c t attempts l q x =
                Raise (HTTPError (status_code r))
                  (x\<lparr>session := replicate (nat (attempts + 1 - l)) ?L @ session x,
                     is_connected := Some False\<rparr>)"
  let ?C = "\<lambda>l q x. \<exists>k e. 1 \<le> k \<and> k \<le> nat (attempts + 1 - l) \<and>
              t (replicate k ?L @ session x) = Raises e \<and>
              authenticate_loop c t attempts l q x =
                Raise e (x\<lparr>session := replicate k ?L @ session x\<rparr>)"
  have le: "loop \<le> attempts" using "1.prems"(2) .
  have n1: "1 \<le> ?n" using le by simp
  have r1: "replicate 1 ?L @ session s = ?L # session s" by simp
  from "1.prems"(1) have
    "(\<exists>e. t (?L # session s) = Raises e) \<or>
     (\<exists>r. t (?L # session s) = Returns r \<and>
        (if status_code r = 201 then well_formed_login r
         else 400 \<le> status_code r \<and> status_code r < 600))"
    by blast
  then show ?case
  proof
    assume "\<exists>e. t (?L # session s) = Raises e"
    then obtain e where e: "t (?L # session s) = Raises e" by blast
    have "authenticate_loop c t attempts loop req s = Raise e ?s1"
      by (subst authenticate_loop.simps) (simp add: le e)
    then have "?C loop req s"
      apply -
      apply (rule exI[of _ "1::nat"], rule exI[of _ e])
      using n1 e by auto
    then show ?thesis by blast
  next
    assume "\<exists>r. t (?L # session s) = Returns r \<and>
        (if status_code r = 201 then well_formed_login r
         else 400 \<le> status_code r \<and> status_code r < 600)"
    then obtain r where r: "t (?L # session s) = Returns r"
        "if status_code r = 201 then well_formed_login r
         else 400 \<le> status_code r \<and> status_code r < 600"
      by blast
    show ?thesis
    proof (cases "status_code r = 201")
      case ok: True
      then have "well_formed_login r" using r(2) by simp
      then obtain body prof tok where w: "json_body r = Some (JObj body)"
          "map_of body ''profile'' = Some (JObj prof)"
          "map_of prof ''authentication_token'' = Some tok" "tok \<noteq> JNull"
        by (rule well_formed_loginD)
      let ?s' = "?s1\<lparr>features := (case map_of prof ''features'' of None \<Rightarrow> JNull | Some v \<Rightarrow> v),
          ring_id := (case map_of prof ''id'' of None \<Rightarrow> JNull | Some v \<Rightarrow> v),
          is_connected := Some True, token := tok,
          params := Some [(''api_version'', API_VERSION c), (''auth_token'', tok)]\<rparr>"
      have e: "authenticate_loop c t attempts loop req s = Return (JBool True) ?s'"
        by (subst authenticate_loop.simps)
           (simp add: le r(1) ok login_success_explicit[OF w(1) w(2) w(3)])
      have "?A loop req s"
        apply (rule exI[of _ ?s'], rule exI[of _ "1::nat"], rule exI[of _ r],
               rule exI[of _ body], rule exI[of _ prof])
        using e n1 r(1) ok w by auto
      then show ?thesis by blast
    next
      case no: False
      then have er: "400 \<le> status_code r" "status_code r < 600" using r(2) by simp_all
      have un: "authenticate_loop c t attempts loop req s =
                authenticate_loop c t attempts (loop + 1) (Some r) ?s1"
        by (subst authenticate_loop.simps) (simp add: le r(1) no)
      show ?thesis
      proof (cases "loop + 1 \<le> attempts")
        case False
        then have n: "?n = 1" using le by simp
        have "authenticate_loop c t attempts (loop + 1) (Some r) ?s1 =
              Raise (HTTPError (status_code r)) (?s1\<lparr>is_connected := Some False\<rparr>)"
          using False er
          by (subst authenticate_loop.simps) (simp add: raise_for_status_def)
        then have "?B loop req s"
          apply -
          apply (rule exI[of _ r])
          using un n r(1) er by auto
        then show ?thesis by blast
      next
        case True
        have step: "nat (attempts + 1 - loop) = Suc (nat (attempts + 1 - (loop + 1)))"
          using le by simp
        from "1.IH"[OF le r(1) no "1.prems"(1) True]
        have "?A (loop + 1) (Some r) ?s1 \<or> ?B (loop + 1) (Some r) ?s1 \<or> ?C (loop + 1) (Some r) ?s1" .
        then show ?thesis
        proof (elim disjE)
          assume "?A (loop + 1) (Some r) ?s1"
          then obtain s' k r' body prof where a:
              "authenticate_loop c t attempts (loop + 1) (Some r) ?s1 = Return (JBool True) s'"
              "1 \<le> k" "k \<le> nat (attempts + 1 - (loop + 1))"
              "session s' = replicate k ?L @ session ?s1"
              "t (replicate k ?L @ session ?s1) = Returns r'"
              "status_code r' = 201" "json_body r' = Some (JObj body)"
              "map_of body ''profile'' = Some (JObj prof)"
              "map_of prof ''authentication_token'' = Some (token s')"
              "is_connected s' = Some True" "token s' \<noteq> JNull"
              "params s' = Some [(''api_version'', API_VERSION c), (''auth_token'', token s')]"
            by blast
          have "?A loop req s"
            apply (rule exI[of _ s'], rule exI[of _ "Suc k"], rule exI[of _ r'],
                   rule exI[of _ body], rule exI[of _ prof])
            using un a step by (auto simp: replicate_app_Cons_same)
          then show ?thesis by blast
        next
          assume "?B (loop + 1) (Some r) ?s1"
          then obtain r' where b:
              "t (replicate (nat (attempts + 1 - (loop + 1))) ?L @ session ?s1) = Returns r'"
              "400 \<le> status_code r'" "status_code r' < 600"
              "authenticate_loop c t attempts (loop + 1) (Some r) ?s1 =
                Raise (HTTPError (status_code r'))
                  (?s1\<lparr>session := replicate (nat (attempts + 1 - (loop + 1))) ?L @ session ?s1,
                      is_connected := Some False\<rparr>)"
            by blast
          have "?B loop req s"
            apply (rule exI[of _ r'])
            using un b step by (auto simp: replicate_app_Cons_same)
          then show ?thesis by blast
        next
          assume "?C (loop + 1) (Some r) ?s1"
          then obtain k e where d:
              "1 \<le> k" "k \<le> nat (attempts + 1 - (loop + 1))"
              "t (replicate k ?L @ session ?s1) = Raises e"
              "authenticate_loop c t attempts (loop + 1) (Some r) ?s1 =
                Raise e (?s1\<lparr>session := replicate k ?L @ session ?s1\<rparr>)"
            by blast
          have "?C loop req s"
            apply (rule exI[of _ "Suc k"], rule exI[of _ e])
            using un d step by (auto simp: replicate_app_Cons_same)
          then show ?thesis by blast
        qed
      qed
    qed
  qed
qed

lemma query_loop_exhaust:
  assumes "\<forall>h. \<exists>r. t (Send m url (dict_update p (case extra of None \<Rightarrow> [] | Some e \<Rightarrow> e)) # h) = Returns r \<and>
             status_code r \<noteq> 200 \<and> status_code r \<noteq> 204 \<and> status_code r \<noteq> 401"
    and "m = ''GET'' \<or> m = ''PUT'' \<or> m = ''POST''"
    and "params s = Some p \<or> params s = Some (dict_update p (case extra of None \<Rightarrow> [] | Some e \<Rightarrow> e))"
  shows "query_loop c t url attempts m rw extra loop s =
     (if loop \<le> attempts then
        Return (Json JNull)
          (s\<lparr>params := Some (dict_update p (case extra of None \<Rightarrow> [] | Some e \<Rightarrow> e)),
             session := replicate (nat (attempts + 1 - loop))
                          (Send m url (dict_update p (case extra of None \<Rightarrow> [] | Some e \<Rightarrow> e)))
                        @ session s\<rparr>)
      else Return (Json JNull) s)"
  using assms
proof (induction c t url attempts m rw extra loop s rule: query_loop.induct)
  case (1 c t url attempts m rw extra loop s)
  let ?e = "case extra of None \<Rightarrow> [] | Some e \<Rightarrow> e"
  let ?p = "dict_update p ?e"
  let ?s1 = "s\<lparr>params := Some ?p\<rparr>"
  let ?q = "Send m url ?p"
  show ?case
  proof (cases "loop \<le> attempts")
    case True
    have m: "merge_extra extra s = Inr ?s1"
      using "1.prems"(3) merge_extra_Some[of s p extra] merge_extra_Some[of s ?p extra]
      by (auto simp: dict_update_idem)
    obtain r where r: "t (?q # session s) = Returns r" "status_code r \<noteq> 200"
        "status_code r \<noteq> 204" "status_code r \<noteq> 401"
      using "1.prems"(1) by blast
    have mm: "\<not> (m \<noteq> ''GET'' \<and> m \<noteq> ''PUT'' \<and> m \<noteq> ''POST'')"
      using "1.prems"(2) by blast
    have ps1: "params ?s1 = Some ?p" by simp
    have tr: "t (Send m url ?p # session ?s1) = Returns r" using r(1) by simp
    have p2: "params (?s1\<lparr>session := ?q # session ?s1\<rparr>) = Some p \<or>
              params (?s1\<lparr>session := ?q # session ?s1\<rparr>) = Some ?p"
      by simp
    have ih: "query_loop c t url attempts m rw extra (loop + 1) (?s1\<lparr>session := ?q # session ?s1\<rparr>) =
       (if loop + 1 \<le> attempts then
        Return (Json JNull)
          (?s1\<lparr>session := ?q # session ?s1, params := Some ?p,
             session := replicate (nat (attempts + 1 - (loop + 1))) ?q @ ?q # session s\<rparr>)
        else Return (Json JNull) (?s1\<lparr>session := ?q # session ?s1\<rparr>))"
      using "1.IH"(2)[OF True m mm ps1 tr r(4) _ "1.prems"(1) "1.prems"(2) p2] r(2) r(3)
      by simp
    show ?thesis
      apply (subst query_loop.simps)
      apply (simp only: True if_True m sum.case mm if_False ps1 option.case tr reply.case r(4) r(2) r(3) ih)
      apply (simp add: nat_step[OF True] replicate_app_Cons_same)
      done
  next
    case False
    then show ?thesis by (subst query_loop.simps) simp
  qed
qed

lemma query_exhaust:
  assumes "\<forall>h. \<exists>r. t (Send m url (dict_update p (case extra of None \<Rightarrow> [] | Some e \<Rightarrow> e)) # h) = Returns r \<and>
               status_code r \<noteq> 200 \<and> status_code r \<noteq> 204 \<and> status_code r \<noteq> 401"
    and "m = ''GET'' \<or> m = ''PUT'' \<or> m = ''POST''"
    and "params s = Some p"
    and "\<not> (debug s \<and> is_connected s \<noteq> Some True)"
    and "0 \<le> attempts"
  shows "query c t s url attempts m rw extra =
     Return (Json JNull)
       (s\<lparr>params := Some (dict_update p (case extra of None \<Rightarrow> [] | Some e \<Rightarrow> e)),
          session := replicate (nat (attempts + 1))
                       (Send m url (dict_update p (case extra of None \<Rightarrow> [] | Some e \<Rightarrow> e)))
                     @ session s\<rparr>)"
proof -
  have "query c t s url attempts m rw extra = query_loop c t url attempts m rw extra 0 s"
    using assms(4) by (auto simp: query_def)
  moreover have "params s = Some p \<or>
      params s = Some (dict_update p (case extra of None \<Rightarrow> [] | Some e \<Rightarrow> e))"
    using assms(3) by simp
  ultimately show ?thesis
    using assms(5) by (simp add: query_loop_exhaust[OF assms(1) assms(2)])
qed

lemma query_first_success:
  assumes "params s = Some p"
    and "\<not> (debug s \<and> is_connected s \<noteq> Some True)"
    and "0 \<le> attempts"
    and "m = ''GET'' \<or> m = ''PUT'' \<or> m = ''POST''"
    and "t (Send m url (dict_update p (case extra of None \<Rightarrow> [] | Some e \<Rightarrow> e)) # session s) = Returns r"
    and "status_code r = 200 \<or> status_code r = 204"
  shows "query c t s url attempts m rw extra =
     success_result m rw r
       (s\<lparr>params := Some (dict_update p (case extra of None \<Rightarrow> [] | Some e \<Rightarrow> e)),
          session := Send m url (dict_update p (case extra of None \<Rightarrow> [] | Some e \<Rightarrow> e)) # session s\<rparr>)"
proof -
  have q: "query c t s url attempts m rw extra = query_loop c t url attempts m rw extra 0 s"
    using assms(2) by (auto simp: query_def)
  have mm: "\<not> (m \<noteq> ''GET'' \<and> m \<noteq> ''PUT'' \<and> m \<noteq> ''POST'')" using assms(4) by blast
  have n4: "status_code r \<noteq> 401" using assms(6) by auto
  show ?thesis
    unfolding q
    apply (subst query_loop.simps)
    apply (simp only: assms(3) if_True merge_extra_Some[OF assms(1)] sum.case mm if_False)
    apply (simp add: assms(5) n4 assms(6))
    done
qed

lemma sample_ring_params:
  "params sample_ring = Some [(''api_version'', JStr ''9''), (''auth_token'', JStr ''tok'')]"
  by (simp add: sample_ring_def)

lemma sample_ring_quiet: "\<not> (debug sample_ring \<and> is_connected sample_ring \<noteq> Some True)"
  by (simp add: sample_ring_def)

lemma sample_devices_query:
  "query sample_const (always 200 (Some j)) sample_ring (devices_url sample_const)
     (RETRY_TOKEN sample_const) ''GET'' False None =
   Return (Json j)
     (sample_ring\<lparr>session := [Send ''GET'' ''/ring_devices''
        [(''api_version'', JStr ''9''), (''auth_token'', JStr ''tok'')]]\<rparr>)"
proof -
  have r: "0 \<le> RETRY_TOKEN sample_const" by (simp add: sample_const_def)
  have g: "''GET'' = ''GET'' \<or> ''GET'' = ''PUT'' \<or> ''GET'' = ''POST''" by simp
  have t: "always 200 (Some j)
             (Send ''GET'' (devices_url sample_const)
                (dict_update [(''api_version'', JStr ''9''), (''auth_token'', JStr ''tok'')]
                   (case None of None \<Rightarrow> [] | Some e \<Rightarrow> e)) # session sample_ring) =
           Returns \<lparr>status_code = 200, json_body = Some j\<rparr>"
    by (simp add: always_def)
  have c: "status_code \<lparr>status_code = 200, json_body = Some j\<rparr> = 200 \<or>
           status_code \<lparr>status_code = 200, json_body = Some j\<rparr> = 204" by simp
  show ?thesis
    using query_first_success[where s = sample_ring and t = "always 200 (Some j)"
        and m = "''GET''" and extra = None and url = "devices_url sample_const"
        and attempts = "RETRY_TOKEN sample_const" and c = sample_const and rw = False
        and r = "\<lparr>status_code = 200, json_body = Some j\<rparr>",
        OF sample_ring_params sample_ring_quiet r g t c]
    by (simp add: success_result_def dict_update_def sample_ring_def sample_const_def)
qed

lemma expiring_login:
  "expiring (Login u # h) = Returns \<lparr>status_code = 201, json_body = Some sample_profile\<rparr>"
  by (simp add: expiring_def)

lemma sample_profile_well_formed:
  "well_formed_login \<lparr>status_code = 201, json_body = Some sample_profile\<rparr>"
  by (simp add: well_formed_login_def sample_profile_def)

lemma str_int_30: "str_int 30 = ''30''"
  by (simp add: str_int_def str_nat.simps)

section \<open>Invariants of the session\<close>

lemma logins_simps:
  "logins (s\<lparr>session := Send m u p # session s\<rparr>) = logins s"
  "logins (s\<lparr>session := Login u # session s\<rparr>) = Suc (logins s)"
  "logins (s\<lparr>is_connected := b\<rparr>) = logins s"
  "logins (s\<lparr>params := q\<rparr>) = logins s"
  by (simp_all add: logins_def is_login_def)

lemma state_of_success_result: "state_of (success_result m rw r s) = s"
  by (simp add: success_result_def split: option.splits)

lemma login_success_state:
  "session (state_of (login_success c r s)) = session s"
  by (simp add: login_success_def split: option.splits sum.splits)

lemma login_success_logins: "logins (state_of (login_success c r s)) = logins s"
  by (simp add: logins_def login_success_state)

lemma authenticate_loop_past:
  "\<not> loop \<le> attempts \<Longrightarrow>
   state_of (authenticate_loop c t attempts loop req s) = s\<lparr>is_connected := Some False\<rparr>"
  by (subst authenticate_loop.simps) (simp split: option.splits)

lemma authenticate_loop_logins_mono:
  "logins s \<le> logins (state_of (authenticate_loop c t attempts loop req s))"
proof (induction c t attempts loop req s rule: authenticate_loop.induct)
  case (1 c t attempts loop req s)
  let ?s1 = "s\<lparr>session := Login (new_session_url c) # session s\<rparr>"
  show ?case
  proof (cases "loop \<le> attempts")
    case True
    show ?thesis
    proof (cases "t (Login (new_session_url c) # session s)")
      case (Raises e)
      then show ?thesis using True
        by (subst authenticate_loop.simps) (simp add: logins_simps)
    next
      case (Returns r)
      show ?thesis
      proof (cases "status_code r = 201")
        case ok: True
        have "state_of (authenticate_loop c t attempts loop req s) = state_of (login_success c r ?s1)"
          by (subst authenticate_loop.simps) (simp add: True Returns ok)
        then show ?thesis by (simp add: login_success_logins logins_simps)
      next
        case no: False
        have "state_of (authenticate_loop c t attempts loop req s) =
              state_of (authenticate_loop c t attempts (loop + 1) (Some r) ?s1)"
          by (subst authenticate_loop.simps) (simp add: True Returns no)
        then show ?thesis using "1.IH"[OF True Returns no] by (simp add: logins_simps)
      qed
    qed
  next
    case False
    then show ?thesis by (simp add: authenticate_loop_past logins_simps)
  qed
qed

lemma authenticate_loop_logins_strict:
  assumes "loop \<le> attempts"
  shows "logins s < logins (state_of (authenticate_loop c t attempts loop req s))"
proof -
  let ?s1 = "s\<lparr>session := Login (new_session_url c) # session s\<rparr>"
  show ?thesis
  proof (cases "t (Login (new_session_url c) # session s)")
    case (Raises e)
    then show ?thesis using assms
      by (subst authenticate_loop.simps) (simp add: logins_simps)
  next
    case (Returns r)
    show ?thesis
    proof (cases "status_code r = 201")
      case ok: True
      have "state_of (authenticate_loop c t attempts loop req s) = state_of (login_success c r ?s1)"
        by (subst authenticate_loop.simps) (simp add: assms Returns ok)
      then show ?thesis by (simp add: login_success_logins logins_simps)
    next
      case no: False
      have "state_of (authenticate_loop c t attempts loop req s) =
            state_of (authenticate_loop c t attempts (loop + 1) (Some r) ?s1)"
        by (subst authenticate_loop.simps) (simp add: assms Returns no)
      then show ?thesis
        using authenticate_loop_logins_mono[of ?s1 c t attempts "loop + 1" "Some r"]
        by (simp add: logins_simps)
    qed
  qed
qed

lemma authenticate_no_login:
  assumes "logins (state_of (authenticate c t attempts s)) = logins s"
  shows "state_of (authenticate c t attempts s) = s\<lparr>is_connected := Some False\<rparr>"
proof (cases "0 \<le> attempts")
  case True
  from authenticate_loop_logins_strict[OF True, of s c t None] assms
  show ?thesis by (simp add: authenticate_def)
next
  case False
  then show ?thesis by (simp add: authenticate_def authenticate_loop_past)
qed

lemma query_loop_rule:
  assumes "P s"
    and "\<And>x x1. P x \<Longrightarrow> merge_extra extra x = Inr x1 \<Longrightarrow> P x1"
    and "\<And>x0 x p. P x0 \<Longrightarrow> merge_extra extra x0 = Inr x \<Longrightarrow> params x = Some p \<Longrightarrow>
           P (x\<lparr>session := Send m url p # session x\<rparr>)"
    and "\<And>x. P x \<Longrightarrow> P (x\<lparr>is_connected := Some False\<rparr>)"
    and "\<And>x. P x \<Longrightarrow> P (state_of (authenticate c t (RETRY_TOKEN c) x))"
  shows "P (state_of (query_loop c t url attempts m rw extra loop s))"
  using assms
proof (induction c t url attempts m rw extra loop s rule: query_loop.induct)
  case (1 c t url attempts m rw extra loop s)
  note A = "1.prems"(2) and B = "1.prems"(3) and C = "1.prems"(4) and D = "1.prems"(5)
  show ?case
  proof (cases "loop \<le> attempts")
    case False
    then show ?thesis using "1.prems"(1) by (subst query_loop.simps) auto
  next
    case True
    show ?thesis
    proof (cases "merge_extra extra s")
      case (Inl e)
      then show ?thesis using True "1.prems"(1) by (subst query_loop.simps) auto
    next
      case (Inr s1)
      have P1: "P s1" using A[OF "1.prems"(1) Inr] .
      show ?thesis
      proof (cases "m \<noteq> ''GET'' \<and> m \<noteq> ''PUT'' \<and> m \<noteq> ''POST''")
        case bad: True
        then show ?thesis using True Inr P1 by (subst query_loop.simps) auto
      next
        case good: False
        show ?thesis
        proof (cases "params s1")
          case None
          then show ?thesis using True Inr good P1 by (subst query_loop.simps) auto
        next
          case (Some p)
          let ?s2 = "s1\<lparr>session := Send m url p # session s1\<rparr>"
          have P2: "P ?s2" using B[OF "1.prems"(1) Inr Some] .
          show ?thesis
          proof (cases "t (Send m url p # session s1)")
            case (Raises e)
            then show ?thesis using True Inr good Some P2 by (subst query_loop.simps) auto
          next
            case (Returns req)
            show ?thesis
            proof (cases "status_code req = 401")
              case exp: True
              let ?s2' = "s1\<lparr>session := Send m url p # session s1, is_connected := Some False\<rparr>"
              have P2': "P ?s2'" using C[OF P2] by simp
              have P3: "P (state_of (authenticate c t (RETRY_TOKEN c) ?s2'))" using D[OF P2'] .
              show ?thesis
              proof (cases "authenticate c t (RETRY_TOKEN c) ?s2'")
                case (Raise e s3)
                then show ?thesis using True Inr good Some Returns exp P3
                  by (subst query_loop.simps) auto
              next
                case (Return v s3)
                have P3': "P s3" using P3 Return by simp
                have ih: "P (state_of (query_loop c t url attempts m rw extra (loop + 1) s3))"
                  by (rule "1.IH"(1)[OF True Inr good Some Returns exp Return P3' A B C D])
                have "query_loop c t url attempts m rw extra loop s =
                      query_loop c t url attempts m rw extra (loop + 1) s3"
                  using True Inr good Some Returns exp Return
                  by (subst query_loop.simps) auto
                then show ?thesis using ih by simp
              qed
            next
              case ne: False
              show ?thesis
              proof (cases "status_code req = 200 \<or> status_code req = 204")
                case ok: True
                have "query_loop c t url attempts m rw extra loop s = success_result m rw req ?s2"
                  using True Inr good Some Returns ne ok
                  by (subst query_loop.simps) auto
                then show ?thesis using P2 by (simp add: state_of_success_result)
              next
                case other: False
                have ih: "P (state_of (query_loop c t url attempts m rw extra (loop + 1) ?s2))"
                  by (rule "1.IH"(2)[OF True Inr good Some Returns ne other P2 A B C D])
                have "query_loop c t url attempts m rw extra loop s =
                      query_loop c t url attempts m rw extra (loop + 1) ?s2"
                  using True Inr good Some Returns ne other
                  by (subst query_loop.simps) auto
                then show ?thesis using ih by simp
              qed
            qed
          qed
        qed
      qed
    qed
  qed
qed






















section \<open>Requests and logins of a query\<close>

text \<open>
  A query never removes a login from the history, and one that dispatches no login leaves
  the merged parameter set in place and sends every request with it.
\<close>

lemma merge_extra_session: "merge_extra extra x = Inr x1 \<Longrightarrow> session x1 = session x"
  by (auto simp: merge_extra_def split: option.splits if_splits)

lemma merge_extra_logins: "merge_extra extra x = Inr x1 \<Longrightarrow> logins x1 = logins x"
  by (simp add: logins_def merge_extra_session)

lemma map_of_dict_update:
  "map_of (dict_update d e) k =
     (case map_of (rev e) k of Some v \<Rightarrow> Some v | None \<Rightarrow> map_of d k)"
proof (induction e arbitrary: d)
  case Nil
  then show ?case by (simp add: dict_update_def)
next
  case (Cons a e)
  obtain x y where a: "a = (x, y)" by (cases a)
  have "dict_update d (a # e) = dict_update (AList.update x y d) e"
    by (simp add: a dict_update_def)
  then show ?case using Cons.IH[of "AList.update x y d"]
    by (auto simp: a AList.update_conv' map_add_def split: option.splits)
qed

lemma authenticate_logins_mono: "logins s \<le> logins (state_of (authenticate c t attempts s))"
  by (simp add: authenticate_def authenticate_loop_logins_mono)

lemma query_loop_logins_mono:
  "logins s \<le> logins (state_of (query_loop c t url attempts m rw extra loop s))"
proof (rule query_loop_rule[of "\<lambda>x. logins s \<le> logins x"])
  show "logins s \<le> logins s" by simp
  show "\<And>x x1. logins s \<le> logins x \<Longrightarrow> merge_extra extra x = Inr x1 \<Longrightarrow> logins s \<le> logins x1"
    by (simp add: merge_extra_logins)
  show "\<And>x0 x p. logins s \<le> logins x0 \<Longrightarrow> merge_extra extra x0 = Inr x \<Longrightarrow> params x = Some p \<Longrightarrow>
          logins s \<le> logins (x\<lparr>session := Send m url p # session x\<rparr>)"
    by (simp add: merge_extra_logins logins_simps)
  show "\<And>x. logins s \<le> logins x \<Longrightarrow> logins s \<le> logins (x\<lparr>is_connected := Some False\<rparr>)"
    by (simp add: logins_simps)
  show "\<And>x. logins s \<le> logins x \<Longrightarrow>
          logins s \<le> logins (state_of (authenticate c t (RETRY_TOKEN c) x))"
    using authenticate_logins_mono le_trans by blast
qed

lemma query_loop_premerge:
  assumes "params s = Some p" and "loop \<le> attempts"
  shows "query_loop c t url attempts m rw extra loop s =
         query_loop c t url attempts m rw extra loop
           (s\<lparr>params := Some (dict_update p (case extra of None \<Rightarrow> [] | Some e \<Rightarrow> e))\<rparr>)"
proof -
  let ?q = "dict_update p (case extra of None \<Rightarrow> [] | Some e \<Rightarrow> e)"
  let ?s1 = "s\<lparr>params := Some ?q\<rparr>"
  have m1: "merge_extra extra s = Inr ?s1" by (rule merge_extra_Some[OF assms(1)])
  have "params ?s1 = Some ?q" by simp
  from merge_extra_Some[OF this, of extra]
  have m2: "merge_extra extra ?s1 = Inr ?s1" by (simp add: dict_update_idem)
  show ?thesis
    by (simp add: query_loop.simps[of c t url attempts m rw extra loop s]
        query_loop.simps[of c t url attempts m rw extra loop ?s1] m1 m2 assms(2))
qed

lemma query_loop_no_login:
  assumes "params s = Some p" and "loop \<le> attempts"
    and "logins (state_of (query_loop c t url attempts m rw extra loop s)) = logins s"
  shows "params (state_of (query_loop c t url attempts m rw extra loop s)) =
           Some (dict_update p (case extra of None \<Rightarrow> [] | Some e \<Rightarrow> e)) \<and>
         (\<exists>n. session (state_of (query_loop c t url attempts m rw extra loop s)) =
                replicate n (Send m url (dict_update p (case extra of None \<Rightarrow> [] | Some e \<Rightarrow> e)))
                @ session s)"
proof -
  let ?q = "dict_update p (case extra of None \<Rightarrow> [] | Some e \<Rightarrow> e)"
  let ?s1 = "s\<lparr>params := Some ?q\<rparr>"
  let ?P = "\<lambda>x. logins s \<le> logins x \<and>
                (logins x = logins s \<longrightarrow>
                   params x = Some ?q \<and> (\<exists>n. session x = replicate n (Send m url ?q) @ session s))"
  have idem: "\<And>x x1. params x = Some ?q \<Longrightarrow> merge_extra extra x = Inr x1 \<Longrightarrow> params x1 = Some ?q"
  proof -
    fix x x1 assume a: "params x = Some ?q" "merge_extra extra x = Inr x1"
    from merge_extra_Some[OF a(1), of extra] a(2) show "params x1 = Some ?q"
      by (auto simp: dict_update_idem)
  qed
  have P1: "?P ?s1"
  proof -
    have "session ?s1 = replicate 0 (Send m url ?q) @ session s" by simp
    then show ?thesis by (auto simp: logins_simps)
  qed
  have A: "\<And>x x1. ?P x \<Longrightarrow> merge_extra extra x = Inr x1 \<Longrightarrow> ?P x1"
    using idem by (auto simp: merge_extra_logins merge_extra_session)
  have "?P (state_of (query_loop c t url attempts m rw extra loop ?s1))"
  proof (rule query_loop_rule[of ?P, OF P1])
    show "\<And>x x1. ?P x \<Longrightarrow> merge_extra extra x = Inr x1 \<Longrightarrow> ?P x1" by (rule A)
    show "\<And>x0 x pa. ?P x0 \<Longrightarrow> merge_extra extra x0 = Inr x \<Longrightarrow> params x = Some pa \<Longrightarrow>
            ?P (x\<lparr>session := Send m url pa # session x\<rparr>)"
    proof -
      fix x0 x pa
      assume a: "?P x0" "merge_extra extra x0 = Inr x" "params x = Some pa"
      have px: "?P x" by (rule A[OF a(1) a(2)])
      show "?P (x\<lparr>session := Send m url pa # session x\<rparr>)"
      proof (intro conjI impI)
        show "logins s \<le> logins (x\<lparr>session := Send m url pa # session x\<rparr>)"
          using px by (simp add: logins_simps)
      next
        assume e: "logins (x\<lparr>session := Send m url pa # session x\<rparr>) = logins s"
        then have "logins x = logins s" by (simp add: logins_simps)
        then show "params (x\<lparr>session := Send m url pa # session x\<rparr>) = Some ?q"
          using px by simp
      next
        assume e: "logins (x\<lparr>session := Send m url pa # session x\<rparr>) = logins s"
        then have l: "logins x = logins s" by (simp add: logins_simps)
        then have pq: "pa = ?q" using px a(3) by simp
        from l px obtain n where "session x = replicate n (Send m url ?q) @ session s" by blast
        then have "session (x\<lparr>session := Send m url pa # session x\<rparr>) =
                   replicate (Suc n) (Send m url ?q) @ session s"
          using pq by simp
        then show "\<exists>n. session (x\<lparr>session := Send m url pa # session x\<rparr>) =
                       replicate n (Send m url ?q) @ session s"
          by blast
      qed
    qed
    show "\<And>x. ?P x \<Longrightarrow> ?P (x\<lparr>is_connected := Some False\<rparr>)"
      by (simp add: logins_simps)
    show "\<And>x. ?P x \<Longrightarrow> ?P (state_of (authenticate c t (RETRY_TOKEN c) x))"
    proof -
      fix x assume px: "?P x"
      let ?y = "state_of (authenticate c t (RETRY_TOKEN c) x)"
      have mono: "logins x \<le> logins ?y" by (rule authenticate_logins_mono)
      show "?P ?y"
      proof (intro conjI impI)
        show "logins s \<le> logins ?y" using px mono by simp
      next
        assume e: "logins ?y = logins s"
        then have "logins ?y = logins x" using px mono by simp
        from authenticate_no_login[OF this] have "?y = x\<lparr>is_connected := Some False\<rparr>" .
        moreover have "logins x = logins s" using e px mono by simp
        ultimately show "params ?y = Some ?q" using px by simp
      next
        assume e: "logins ?y = logins s"
        then have "logins ?y = logins x" using px mono by simp
        from authenticate_no_login[OF this] have "?y = x\<lparr>is_connected := Some False\<rparr>" .
        moreover have "logins x = logins s" using e px mono by simp
        ultimately show "\<exists>n. session ?y = replicate n (Send m url ?q) @ session s"
          using px by simp
      qed
    qed
  qed
  then have "?P (state_of (query_loop c t url attempts m rw extra loop s))"
    using query_loop_premerge[OF assms(1) assms(2), of c t url m rw extra] by simp
  then show ?thesis using assms(3) by blast
qed

lemma query_logins_mono:
  "logins s \<le> logins (state_of (query c t s url attempts m rw extra))"
proof (cases "debug s \<and> is_connected s \<noteq> Some True")
  case False
  then have "query c t s url attempts m rw extra = query_loop c t url attempts m rw extra 0 s"
    by (auto simp: query_def)
  then show ?thesis by (simp add: query_loop_logins_mono)
next
  case True
  have a: "logins s \<le> logins (state_of (authenticate c t (RETRY_TOKEN c) s))"
    by (rule authenticate_logins_mono)
  show ?thesis
  proof (cases "authenticate c t (RETRY_TOKEN c) s")
    case (Raise e s')
    then show ?thesis using True a by (simp add: query_def)
  next
    case (Return v s')
    have "logins s' \<le> logins (state_of (query_loop c t url attempts m rw extra 0 s'))"
      by (rule query_loop_logins_mono)
    then show ?thesis using True a Return by (simp add: query_def)
  qed
qed

lemma query_no_login:
  assumes "params s = Some p" and "0 \<le> RETRY_TOKEN c" and "0 \<le> attempts"
    and "logins (state_of (query c t s url attempts m rw extra)) = logins s"
  shows "params (state_of (query c t s url attempts m rw extra)) =
           Some (dict_update p (case extra of None \<Rightarrow> [] | Some e \<Rightarrow> e)) \<and>
         (\<exists>n. session (state_of (query c t s url attempts m rw extra)) =
                replicate n (Send m url (dict_update p (case extra of None \<Rightarrow> [] | Some e \<Rightarrow> e)))
                @ session s)"
proof (cases "debug s \<and> is_connected s \<noteq> Some True")
  case False
  then have q: "query c t s url attempts m rw extra = query_loop c t url attempts m rw extra 0 s"
    by (auto simp: query_def)
  show ?thesis
    using query_loop_no_login[OF assms(1) assms(3), of c t url m rw extra] assms(4)
    unfolding q by simp
next
  case True
  have a: "logins s < logins (state_of (authenticate c t (RETRY_TOKEN c) s))"
    using authenticate_loop_logins_strict[OF assms(2), of s c t None]
    by (simp add: authenticate_def)
  have "logins s < logins (state_of (query c t s url attempts m rw extra))"
  proof (cases "authenticate c t (RETRY_TOKEN c) s")
    case (Raise e s')
    then show ?thesis using True a by (simp add: query_def)
  next
    case (Return v s')
    have "logins s' \<le> logins (state_of (query_loop c t url attempts m rw extra 0 s'))"
      by (rule query_loop_logins_mono)
    then show ?thesis using True a Return by (simp add: query_def)
  qed
  then show ?thesis using assms(4) by simp
qed

lemma sample_limit_query:
  "query sample_const (always 200 (Some (JList []))) sample_ring ''/history'' 3 ''GET'' False
     (Some [(''limit'', JStr ''5'')]) =
   Return (Json (JList []))
     (sample_ring\<lparr>params := Some [(''api_version'', JStr ''9''), (''auth_token'', JStr ''tok''),
                                 (''limit'', JStr ''5'')],
        session := [Send ''GET'' ''/history''
                      [(''api_version'', JStr ''9''), (''auth_token'', JStr ''tok''),
                       (''limit'', JStr ''5'')]]\<rparr>)"
proof -
  have r: "(0::int) \<le> 3" by simp
  have g: "''GET'' = ''GET'' \<or> ''GET'' = ''PUT'' \<or> ''GET'' = ''POST''" by simp
  have t: "always 200 (Some (JList []))
             (Send ''GET'' ''/history''
                (dict_update [(''api_version'', JStr ''9''), (''auth_token'', JStr ''tok'')]
                   (case Some [(''limit'', JStr ''5'')] of None \<Rightarrow> [] | Some e \<Rightarrow> e))
              # session sample_ring) =
           Returns \<lparr>status_code = 200, json_body = Some (JList [])\<rparr>"
    by (simp add: always_def)
  have c: "status_code \<lparr>status_code = 200, json_body = Some (JList [])\<rparr> = 200 \<or>
           status_code \<lparr>status_code = 200, json_body = Some (JList [])\<rparr> = 204" by simp
  show ?thesis
    using query_first_success[where s = sample_ring and t = "always 200 (Some (JList []))"
        and m = "''GET''" and extra = "Some [(''limit'', JStr ''5'')]" and url = "''/history''"
        and attempts = 3 and c = sample_const and rw = False
        and r = "\<lparr>status_code = 200, json_body = Some (JList [])\<rparr>",
        OF sample_ring_params sample_ring_quiet r g t c]
    by (simp add: success_result_def dict_update_def sample_ring_def)
qed

lemma sample_follow_up_query:
  "query sample_const (always 200 (Some (JList [])))
     (sample_ring\<lparr>params := Some [(''api_version'', JStr ''9''), (''auth_token'', JStr ''tok''),
                                 (''limit'', JStr ''5'')],
        session := [Send ''GET'' ''/history''
                      [(''api_version'', JStr ''9''), (''auth_token'', JStr ''tok''),
                       (''limit'', JStr ''5'')]]\<rparr>)
     ''/ring_devices'' 3 ''GET'' False None =
   Return (Json (JList []))
     (sample_ring\<lparr>params := Some [(''api_version'', JStr ''9''), (''auth_token'', JStr ''tok''),
                                 (''limit'', JStr ''5'')],
        session := [Send ''GET'' ''/ring_devices''
                      [(''api_version'', JStr ''9''), (''auth_token'', JStr ''tok''),
                       (''limit'', JStr ''5'')],
                    Send ''GET'' ''/history''
                      [(''api_version'', JStr ''9''), (''auth_token'', JStr ''tok''),
                       (''limit'', JStr ''5'')]]\<rparr>)"
proof -
  let ?p3 = "[(''api_version'', JStr ''9''), (''auth_token'', JStr ''tok''), (''limit'', JStr ''5'')]"
  let ?s1 = "sample_ring\<lparr>params := Some ?p3, session := [Send ''GET'' ''/history'' ?p3]\<rparr>"
  have p: "params ?s1 = Some ?p3" by simp
  have d: "\<not> (debug ?s1 \<and> is_connected ?s1 \<noteq> Some True)" by (simp add: sample_ring_def)
  have r: "(0::int) \<le> 3" by simp
  have g: "''GET'' = ''GET'' \<or> ''GET'' = ''PUT'' \<or> ''GET'' = ''POST''" by simp
  have t: "always 200 (Some (JList []))
             (Send ''GET'' ''/ring_devices''
                (dict_update ?p3 (case None of None \<Rightarrow> [] | Some e \<Rightarrow> e)) # session ?s1) =
           Returns \<lparr>status_code = 200, json_body = Some (JList [])\<rparr>"
    by (simp add: always_def)
  have c: "status_code \<lparr>status_code = 200, json_body = Some (JList [])\<rparr> = 200 \<or>
           status_code \<lparr>status_code = 200, json_body = Some (JList [])\<rparr> = 204" by simp
  show ?thesis
    using query_first_success[where s = ?s1 and t = "always 200 (Some (JList []))"
        and m = "''GET''" and extra = None and url = "''/ring_devices''"
        and attempts = 3 and c = sample_const and rw = False
        and r = "\<lparr>status_code = 200, json_body = Some (JList [])\<rparr>",
        OF p d r g t c]
    by (simp add: success_result_def dict_update_def)
qed

section \<open>Authentication\<close>

text \<open>
  C1, as amended. Let the retry count be non-negative and let the transport treat every
  login attempt in one of three ways: it raises, or it answers 201 with a body whose
  \<^verbatim>\<open>profile\<close> object holds a token that is not \<^verbatim>\<open>None\<close>, or it answers with an HTTP error
  status (400 to 599). Then for all credentials the constructor does one of three things.
  It returns after \<open>k\<close> login attempts, \<open>1 \<le> k \<le> RETRY_TOKEN + 1\<close>, the \<open>k\<close>-th answered 201,
  with \<open>is_connected\<close> true, the token of that response (not \<^verbatim>\<open>None\<close>) and a parameter set
  carrying it. Or it raises, after exactly \<open>RETRY_TOKEN + 1\<close> login attempts and with
  \<open>is_connected\<close> set to false, the \<^verbatim>\<open>HTTPError\<close> of the status of the last response. Or it
  re-raises the exception the transport raised on attempt \<open>k\<close>, \<open>1 \<le> k \<le> RETRY_TOKEN + 1\<close>,
  after those \<open>k\<close> attempts and with \<open>is_connected\<close> still unset.
\<close>

theorem construction_connected_or_raises:
  assumes "0 \<le> RETRY_TOKEN c"
    and "\<forall>h. (\<exists>e. t (Login (new_session_url c) # h) = Raises e) \<or>
               (\<exists>r. t (Login (new_session_url c) # h) = Returns r \<and>
                  (if status_code r = 201 then well_formed_login r
                   else 400 \<le> status_code r \<and> status_code r < 600))"
  shows "(\<exists>s' k r body prof.
            Ring_init c t user pass dbg = Return () s' \<and>
            1 \<le> k \<and> k \<le> nat (RETRY_TOKEN c + 1) \<and>
            session s' = replicate k (Login (new_session_url c)) \<and>
            t (replicate k (Login (new_session_url c))) = Returns r \<and>
            status_code r = 201 \<and> json_body r = Some (JObj body) \<and>
            map_of body ''profile'' = Some (JObj prof) \<and>
            map_of prof ''authentication_token'' = Some (token s') \<and>
            is_connected s' = Some True \<and> token s' \<noteq> JNull \<and>
            params s' = Some [(''api_version'', API_VERSION c), (''auth_token'', token s')]) \<or>
         (\<exists>r. t (replicate (nat (RETRY_TOKEN c + 1)) (Login (new_session_url c))) = Returns r \<and>
              400 \<le> status_code r \<and> status_code r < 600 \<and>
              Ring_init c t user pass dbg =
                Raise (HTTPError (status_code r))
                  \<lparr>features = JNull, is_connected = Some False, ring_id = JNull, token = JNull,
                   params = None, debug = dbg, username = user, password = pass,
                   session = replicate (nat (RETRY_TOKEN c + 1)) (Login (new_session_url c))\<rparr>) \<or>
         (\<exists>k e. 1 \<le> k \<and> k \<le> nat (RETRY_TOKEN c + 1) \<and>
              t (replicate k (Login (new_session_url c))) = Raises e \<and>
              Ring_init c t user pass dbg =
                Raise e
                  \<lparr>features = JNull, is_connected = None, ring_id = JNull, token = JNull,
                   params = None, debug = dbg, username = user, password = pass,
                   session = replicate k (Login (new_session_url c))\<rparr>)"
proof -
  let ?L = "Login (new_session_url c)"
  let ?s0 = "\<lparr>features = JNull, is_connected = None, ring_id = JNull, token = JNull,
              params = None, debug = dbg, username = user, password = pass, session = []\<rparr>"
  let ?A = "\<exists>s' k r body prof.
            authenticate_loop c t (RETRY_TOKEN c) 0 None ?s0 = Return (JBool True) s' \<and>
            1 \<le> k \<and> k \<le> nat (RETRY_TOKEN c + 1 - 0) \<and>
            session s' = replicate k ?L @ session ?s0 \<and>
            t (replicate k ?L @ session ?s0) = Returns r \<and>
            status_code r = 201 \<and> json_body r = Some (JObj body) \<and>
            map_of body ''profile'' = Some (JObj prof) \<and>
            map_of prof ''authentication_token'' = Some (token s') \<and>
            is_connected s' = Some True \<and> token s' \<noteq> JNull \<and>
            params s' = Some [(''api_version'', API_VERSION c), (''auth_token'', token s')]"
  let ?B = "\<exists>r. t (replicate (nat (RETRY_TOKEN c + 1 - 0)) ?L @ session ?s0) = Returns r \<and>
              400 \<le> status_code r \<and> status_code r < 600 \<and>
              authenticate_loop c t (RETRY_TOKEN c) 0 None ?s0 =
                Raise (HTTPError (status_code r))
                  (?s0\<lparr>session := replicate (nat (RETRY_TOKEN c + 1 - 0)) ?L @ session ?s0,
                     is_connected := Some False\<rparr>)"
  let ?C = "\<exists>k e. 1 \<le> k \<and> k \<le> nat (RETRY_TOKEN c + 1 - 0) \<and>
              t (replicate k ?L @ session ?s0) = Raises e \<and>
              authenticate_loop c t (RETRY_TOKEN c) 0 None ?s0 =
                Raise e (?s0\<lparr>session := replicate k ?L @ session ?s0\<rparr>)"
  from authenticate_loop_outcome[OF assms(2) assms(1), of None ?s0]
  have "?A \<or> ?B \<or> ?C" .
  then show ?thesis
  proof (elim disjE)
    assume ?A
    then obtain s' k r body prof where a:
        "authenticate_loop c t (RETRY_TOKEN c) 0 None ?s0 = Return (JBool True) s'"
        "1 \<le> k" "k \<le> nat (RETRY_TOKEN c + 1 - 0)"
        "session s' = replicate k ?L @ session ?s0"
        "t (replicate k ?L @ session ?s0) = Returns r"
        "status_code r = 201" "json_body r = Some (JObj body)"
        "map_of body ''profile'' = Some (JObj prof)"
        "map_of prof ''authentication_token'' = Some (token s')"
        "is_connected s' = Some True" "token s' \<noteq> JNull"
        "params s' = Some [(''api_version'', API_VERSION c), (''auth_token'', token s')]"
      by blast
    have i: "Ring_init c t user pass dbg = Return () s'"
      by (simp add: Ring_init_def authenticate_def a(1))
    have "\<exists>s' k r body prof.
            Ring_init c t user pass dbg = Return () s' \<and>
            1 \<le> k \<and> k \<le> nat (RETRY_TOKEN c + 1) \<and>
            session s' = replicate k ?L \<and>
            t (replicate k ?L) = Returns r \<and>
            status_code r = 201 \<and> json_body r = Some (JObj body) \<and>
            map_of body ''profile'' = Some (JObj prof) \<and>
            map_of prof ''authentication_token'' = Some (token s') \<and>
            is_connected s' = Some True \<and> token s' \<noteq> JNull \<and>
            params s' = Some [(''api_version'', API_VERSION c), (''auth_token'', token s')]"
      apply (rule exI[of _ s'], rule exI[of _ k], rule exI[of _ r],
             rule exI[of _ body], rule exI[of _ prof])
      using i a by auto
    then show ?thesis by (rule disjI1)
  next
    assume ?B
    then obtain r where b:
        "t (replicate (nat (RETRY_TOKEN c + 1 - 0)) ?L @ session ?s0) = Returns r"
        "400 \<le> status_code r" "status_code r < 600"
        "authenticate_loop c t (RETRY_TOKEN c) 0 None ?s0 =
           Raise (HTTPError (status_code r))
             (?s0\<lparr>session := replicate (nat (RETRY_TOKEN c + 1 - 0)) ?L @ session ?s0,
                is_connected := Some False\<rparr>)"
      by blast
    have "\<exists>r. t (replicate (nat (RETRY_TOKEN c + 1)) ?L) = Returns r \<and>
              400 \<le> status_code r \<and> status_code r < 600 \<and>
              Ring_init c t user pass dbg =
                Raise (HTTPError (status_code r))
                  \<lparr>features = JNull, is_connected = Some False, ring_id = JNull, token = JNull,
                   params = None, debug = dbg, username = user, password = pass,
                   session = replicate (nat (RETRY_TOKEN c + 1)) ?L\<rparr>"
      apply (rule exI[of _ r])
      using b by (auto simp: Ring_init_def authenticate_def)
    then show ?thesis by blast
  next
    assume ?C
    then obtain k e where d:
        "1 \<le> k" "k \<le> nat (RETRY_TOKEN c + 1 - 0)"
        "t (replicate k ?L @ session ?s0) = Raises e"
        "authenticate_loop c t (RETRY_TOKEN c) 0 None ?s0 =
           Raise e (?s0\<lparr>session := replicate k ?L @ session ?s0\<rparr>)"
      by blast
    have "\<exists>k e. 1 \<le> k \<and> k \<le> nat (RETRY_TOKEN c + 1) \<and>
              t (replicate k ?L) = Raises e \<and>
              Ring_init c t user pass dbg =
                Raise e
                  \<lparr>features = JNull, is_connected = None, ring_id = JNull, token = JNull,
                   params = None, debug = dbg, username = user, password = pass,
                   session = replicate k ?L\<rparr>"
      apply (rule exI[of _ k], rule exI[of _ e])
      using d by (auto simp: Ring_init_def authenticate_def)
    then show ?thesis by blast
  qed
qed

text \<open>
  The instances: a transport that answers every login with 503 makes the constructor
  raise \<^verbatim>\<open>HTTPError\<close> 503 after four attempts; one that accepts the login makes it return
  connected with the token of the response.
\<close>

theorem construction_connected_or_raises_witness:
  "0 \<le> RETRY_TOKEN sample_const \<and>
   (\<forall>h. (\<exists>e. always 503 None (Login (new_session_url sample_const) # h) = Raises e) \<or>
        (\<exists>r. always 503 None (Login (new_session_url sample_const) # h) = Returns r \<and>
           (if status_code r = 201 then well_formed_login r
            else 400 \<le> status_code r \<and> status_code r < 600))) \<and>
   Ring_init sample_const (always 503 None) ''user'' ''secret'' False =
     Raise (HTTPError 503)
       \<lparr>features = JNull, is_connected = Some False, ring_id = JNull, token = JNull,
        params = None, debug = False, username = ''user'', password = ''secret'',
        session = [Login ''/session'', Login ''/session'', Login ''/session'', Login ''/session'']\<rparr> \<and>
   (\<forall>h. (\<exists>e. expiring (Login (new_session_url sample_const) # h) = Raises e) \<or>
        (\<exists>r. expiring (Login (new_session_url sample_const) # h) = Returns r \<and>
           (if status_code r = 201 then well_formed_login r
            else 400 \<le> status_code r \<and> status_code r < 600))) \<and>
   (\<exists>s'. Ring_init sample_const expiring ''user'' ''secret'' False = Return () s' \<and>
         is_connected s' = Some True \<and> token s' = JStr ''fresh'' \<and>
         params s' = Some [(''api_version'', JStr ''9''), (''auth_token'', JStr ''fresh'')])"
proof -
  let ?L = "Login (new_session_url sample_const)"
  have a: "0 \<le> RETRY_TOKEN sample_const" by (simp add: sample_const_def)
  have n: "nat (RETRY_TOKEN sample_const + 1) = 4" by (simp add: sample_const_def)
  have l4: "replicate 4 ?L = [Login ''/session'', Login ''/session'', Login ''/session'', Login ''/session'']"
    by (simp add: sample_const_def numeral_eq_Suc)
  have b: "\<forall>h. (\<exists>e. always 503 None (?L # h) = Raises e) \<or>
        (\<exists>r. always 503 None (?L # h) = Returns r \<and>
           (if status_code r = 201 then well_formed_login r
            else 400 \<le> status_code r \<and> status_code r < 600))"
    by (simp add: always_def)
  have b1: "\<And>h r. always 503 None h = Returns r \<Longrightarrow> status_code r = 503"
    by (auto simp: always_def)
  have b2: "\<And>h e. always 503 None h \<noteq> Raises e" by (simp add: always_def)
  have r503: "Ring_init sample_const (always 503 None) ''user'' ''secret'' False =
     Raise (HTTPError 503)
       \<lparr>features = JNull, is_connected = Some False, ring_id = JNull, token = JNull,
        params = None, debug = False, username = ''user'', password = ''secret'',
        session = replicate 4 ?L\<rparr>"
    using construction_connected_or_raises[OF a b, of "''user''" "''secret''" False] b1 b2
    by (auto simp: n)
  have e: "\<forall>h. (\<exists>e. expiring (?L # h) = Raises e) \<or>
        (\<exists>r. expiring (?L # h) = Returns r \<and>
           (if status_code r = 201 then well_formed_login r
            else 400 \<le> status_code r \<and> status_code r < 600))"
    by (simp add: expiring_login sample_profile_well_formed)
  have e1: "\<And>h r. expiring (?L # h) = Returns r \<Longrightarrow>
              r = \<lparr>status_code = 201, json_body = Some sample_profile\<rparr>"
    by (simp add: expiring_login)
  have e2: "\<And>k. 1 \<le> k \<Longrightarrow> replicate k ?L = ?L # replicate (k - 1) ?L"
    by (case_tac k) simp_all
  have ok: "\<exists>s'. Ring_init sample_const expiring ''user'' ''secret'' False = Return () s' \<and>
         is_connected s' = Some True \<and> token s' = JStr ''fresh'' \<and>
         params s' = Some [(''api_version'', JStr ''9''), (''auth_token'', JStr ''fresh'')]"
    using construction_connected_or_raises[OF a e, of "''user''" "''secret''" False]
  proof (elim disjE exE conjE)
    fix s' k r body prof
    assume h: "Ring_init sample_const expiring ''user'' ''secret'' False = Return () s'"
      "1 \<le> k" "expiring (replicate k ?L) = Returns r"
      "json_body r = Some (JObj body)" "map_of body ''profile'' = Some (JObj prof)"
      "map_of prof ''authentication_token'' = Some (token s')"
      "is_connected s' = Some True"
      "params s' = Some [(''api_version'', API_VERSION sample_const), (''auth_token'', token s')]"
    have "r = \<lparr>status_code = 201, json_body = Some sample_profile\<rparr>"
      using h(3) e2[OF h(2)] e1 by simp
    then have "token s' = JStr ''fresh''"
      using h(4) h(5) h(6) by (auto simp: sample_profile_def)
    then show ?thesis using h(1) h(7) h(8) by (simp add: sample_const_def)
  next
    fix r
    assume "expiring (replicate (nat (RETRY_TOKEN sample_const + 1)) ?L) = Returns r"
      "400 \<le> status_code r"
    then show ?thesis using e1[of "replicate 3 ?L" r] by (simp add: n numeral_eq_Suc)
  next
    fix k e
    assume "1 \<le> k" "expiring (replicate k ?L) = Raises e"
    then show ?thesis using e2[of k] by (simp add: expiring_login)
  qed
  show ?thesis
    using a b e r503 ok by (simp only: l4) simp
qed

text \<open>
  C1 as stated fails: an exception of the transport is re-raised at once. With a transport
  that refuses the connection the constructor raises after one login attempt, not after
  \<open>RETRY_TOKEN + 1 = 4\<close>, and \<open>is_connected\<close> is still unset.
\<close>

theorem construction_transport_exception:
  "Ring_init sample_const refusing ''user'' ''secret'' False =
     Raise (TransportError ''connection refused'')
       \<lparr>features = JNull, is_connected = None, ring_id = JNull, token = JNull,
        params = None, debug = False, username = ''user'', password = ''secret'',
        session = [Login ''/session'']\<rparr> \<and>
   RETRY_TOKEN sample_const + 1 = 4"
  apply (simp add: Ring_init_def authenticate_def)
  apply (subst authenticate_loop.simps)
  apply (simp add: refusing_def sample_const_def)
  done

text \<open>
  C9. The login treats only status 201 as success. When the transport answers every
  login attempt with a status that is neither 201 nor an error status (400 to 599), for
  instance 200, and the retry count is not negative, the constructor returns without
  raising after \<open>RETRY_TOKEN + 1\<close> attempts, and leaves \<open>is_connected\<close> false, the token
  and the parameter set unset: the final \<^verbatim>\<open>raise_for_status\<close> does nothing.
\<close>

theorem login_non_201_completes_disconnected:
  assumes "0 \<le> RETRY_TOKEN c"
    and "\<forall>h. \<exists>r. t (Login (new_session_url c) # h) = Returns r \<and> status_code r \<noteq> 201 \<and>
               \<not> (400 \<le> status_code r \<and> status_code r < 600)"
  shows "Ring_init c t user pass dbg =
     Return ()
       \<lparr>features = JNull, is_connected = Some False, ring_id = JNull, token = JNull,
        params = None, debug = dbg, username = user, password = pass,
        session = replicate (nat (RETRY_TOKEN c + 1)) (Login (new_session_url c))\<rparr>"
  using assms(1)
  by (simp add: Ring_init_def authenticate_def authenticate_loop_no_error[OF assms(2)])

theorem login_non_201_completes_disconnected_witness:
  "0 \<le> RETRY_TOKEN sample_const \<and>
   (\<forall>h. \<exists>r. always 200 None (Login (new_session_url sample_const) # h) = Returns r \<and>
               status_code r \<noteq> 201 \<and>
               \<not> (400 \<le> status_code r \<and> status_code r < 600)) \<and>
   Ring_init sample_const (always 200 None) ''user'' ''secret'' False =
     Return ()
       \<lparr>features = JNull, is_connected = Some False, ring_id = JNull, token = JNull,
        params = None, debug = False, username = ''user'', password = ''secret'',
        session = [Login ''/session'', Login ''/session'', Login ''/session'', Login ''/session'']\<rparr>"
proof -
  have a: "0 \<le> RETRY_TOKEN sample_const" by (simp add: sample_const_def)
  have b: "\<forall>h. \<exists>r. always 200 None (Login (new_session_url sample_const) # h) = Returns r \<and>
               status_code r \<noteq> 201 \<and>
               \<not> (400 \<le> status_code r \<and> status_code r < 600)"
    by (simp add: always_def)
  have n: "replicate (nat (RETRY_TOKEN sample_const + 1)) (Login (new_session_url sample_const))
     = [Login ''/session'', Login ''/session'', Login ''/session'', Login ''/session'']"
    by (simp add: sample_const_def numeral_eq_Suc)
  show ?thesis
    using login_non_201_completes_disconnected[OF a b, of "''user''" "''secret''" False] a b
    by (simp only: n) simp
qed

section \<open>Queries\<close>

text \<open>
  C2, as amended. On a session that holds a parameter set and does not authenticate first
  (it is connected, or not in debug mode), with a retry count that is not negative, when the transport answers every attempt of the
  request with a status other than 200, 204 and 401, \<^verbatim>\<open>query\<close> dispatches the request
  exactly \<open>RETRY_TOKEN + 1\<close> times, nothing else, and returns \<^verbatim>\<open>None\<close> without raising.
\<close>

theorem query_exhaustion_returns_null:
  assumes "\<forall>h. \<exists>r. t (Send m url (dict_update p (case extra of None \<Rightarrow> [] | Some e \<Rightarrow> e)) # h) = Returns r \<and>
               status_code r \<noteq> 200 \<and> status_code r \<noteq> 204 \<and> status_code r \<noteq> 401"
    and "m = ''GET'' \<or> m = ''PUT'' \<or> m = ''POST''"
    and "params s = Some p"
    and "\<not> (debug s \<and> is_connected s \<noteq> Some True)"
    and "0 \<le> RETRY_TOKEN c"
  shows "query c t s url (RETRY_TOKEN c) m rw extra =
     Return (Json JNull)
       (s\<lparr>params := Some (dict_update p (case extra of None \<Rightarrow> [] | Some e \<Rightarrow> e)),
          session := replicate (nat (RETRY_TOKEN c + 1))
                       (Send m url (dict_update p (case extra of None \<Rightarrow> [] | Some e \<Rightarrow> e)))
                     @ session s\<rparr>)"
proof -
  have "query c t s url (RETRY_TOKEN c) m rw extra =
          query_loop c t url (RETRY_TOKEN c) m rw extra 0 s"
    using assms(4) by (auto simp: query_def)
  moreover have "params s = Some p \<or>
      params s = Some (dict_update p (case extra of None \<Rightarrow> [] | Some e \<Rightarrow> e))"
    using assms(3) by simp
  ultimately show ?thesis
    using assms(5) by (simp add: query_loop_exhaust[OF assms(1) assms(2)])
qed

theorem query_exhaustion_returns_null_witness:
  "(\<forall>h. \<exists>r. always 500 None
            (Send ''GET'' ''/ring_devices''
               (dict_update [(''api_version'', JStr ''9''), (''auth_token'', JStr ''tok'')]
                  (case None of None \<Rightarrow> [] | Some e \<Rightarrow> e)) # h) = Returns r \<and>
          status_code r \<noteq> 200 \<and> status_code r \<noteq> 204 \<and> status_code r \<noteq> 401) \<and>
   params sample_ring = Some [(''api_version'', JStr ''9''), (''auth_token'', JStr ''tok'')] \<and>
   \<not> (debug sample_ring \<and> is_connected sample_ring \<noteq> Some True) \<and>
   0 \<le> RETRY_TOKEN sample_const \<and>
   query sample_const (always 500 None) sample_ring ''/ring_devices'' (RETRY_TOKEN sample_const)
       ''GET'' False None =
     Return (Json JNull)
       (sample_ring\<lparr>session :=
          replicate 4 (Send ''GET'' ''/ring_devices''
                         [(''api_version'', JStr ''9''), (''auth_token'', JStr ''tok'')])\<rparr>)"
proof -
  have a: "\<forall>h. \<exists>r. always 500 None
            (Send ''GET'' ''/ring_devices''
               (dict_update [(''api_version'', JStr ''9''), (''auth_token'', JStr ''tok'')]
                  (case None of None \<Rightarrow> [] | Some e \<Rightarrow> e)) # h) = Returns r \<and>
          status_code r \<noteq> 200 \<and> status_code r \<noteq> 204 \<and> status_code r \<noteq> 401"
    by (simp add: always_def)
  have b: "''GET'' = ''GET'' \<or> ''GET'' = ''PUT'' \<or> ''GET'' = ''POST''" by simp
  have r: "0 \<le> RETRY_TOKEN sample_const" by (simp add: sample_const_def)
  have n: "nat (RETRY_TOKEN sample_const + 1) = 4" by (simp add: sample_const_def)
  show ?thesis
    using query_exhaustion_returns_null[OF a b sample_ring_params sample_ring_quiet r, of False]
      a sample_ring_params sample_ring_quiet r
    by (simp add: n dict_update_def sample_ring_def)
qed

text \<open>
  C2 as stated fails on two sessions the client can reach. The session the constructor
  returns under a transport that answers 300 to everything holds no parameter set, and
  \<^verbatim>\<open>query\<close> raises \<^verbatim>\<open>TypeError\<close> from \<^verbatim>\<open>urlencode(None)\<close> without dispatching anything. A
  disconnected session in debug mode authenticates first, and under a transport that
  answers 500 to everything that login raises \<^verbatim>\<open>HTTPError\<close> out of \<^verbatim>\<open>query\<close>.
\<close>

theorem query_exhaustion_counterexample:
  "Ring_init sample_const (always 300 None) ''user'' ''secret'' False = Return () unconnected_ring \<and>
   query sample_const (always 300 None) unconnected_ring ''/ring_devices''
       (RETRY_TOKEN sample_const) ''GET'' False None =
     Raise TypeError unconnected_ring \<and>
   query sample_const (always 500 None) stale_ring ''/ring_devices''
       (RETRY_TOKEN sample_const) ''GET'' False None =
     Raise (HTTPError 500)
       (stale_ring\<lparr>session :=
          [Login ''/session'', Login ''/session'', Login ''/session'', Login ''/session'']\<rparr>)"
proof -
  have a: "0 \<le> RETRY_TOKEN sample_const" by (simp add: sample_const_def)
  have b: "\<forall>h. \<exists>r. always 300 None (Login (new_session_url sample_const) # h) = Returns r \<and>
             status_code r \<noteq> 201 \<and> \<not> (400 \<le> status_code r \<and> status_code r < 600)"
    by (simp add: always_def)
  have i: "Ring_init sample_const (always 300 None) ''user'' ''secret'' False = Return () unconnected_ring"
    using a
    by (simp add: Ring_init_def authenticate_def authenticate_loop_no_error[OF b])
       (simp add: unconnected_ring_def sample_const_def numeral_eq_Suc)
  have q1: "query sample_const (always 300 None) unconnected_ring ''/ring_devices''
       (RETRY_TOKEN sample_const) ''GET'' False None = Raise TypeError unconnected_ring"
    apply (simp add: query_def unconnected_ring_def)
    apply (subst query_loop.simps)
    apply (simp add: merge_extra_def sample_const_def)
    done
  have q2: "query sample_const (always 500 None) stale_ring ''/ring_devices''
       (RETRY_TOKEN sample_const) ''GET'' False None =
     Raise (HTTPError 500)
       (stale_ring\<lparr>session :=
          [Login ''/session'', Login ''/session'', Login ''/session'', Login ''/session'']\<rparr>)"
    apply (simp add: query_def stale_ring_def authenticate_def)
    apply (subst authenticate_loop.simps, simp add: always_def sample_const_def)
    apply (subst authenticate_loop.simps, simp add: always_def sample_const_def)
    apply (subst authenticate_loop.simps, simp add: always_def sample_const_def)
    apply (subst authenticate_loop.simps, simp add: always_def sample_const_def)
    apply (subst authenticate_loop.simps, simp add: always_def sample_const_def raise_for_status_def)
    done
  show ?thesis using i q1 q2 by simp
qed




section \<open>The parameter set\<close>




text \<open>
  C5, as amended. Let the session hold a parameter set \<^verbatim>\<open>p\<close>, let the retry constant and
  the attempts of both calls be non-negative, and let no login be dispatched during two
  successive calls of \<^verbatim>\<open>query\<close>, the first with \<^verbatim>\<open>extra_params\<close>. Then the first call leaves
  the parameter set \<^verbatim>\<open>p\<close> updated with its \<^verbatim>\<open>extra_params\<close>: each of their keys is bound to the
  value given last, every other key is kept. Every request of the first call carries that
  set. The second call starts from it: its requests carry, and it leaves, that set updated
  with its own \<^verbatim>\<open>extra_params\<close>, so a key merged by the first call keeps its value unless the
  second call names it; with \<^verbatim>\<open>extra_params\<close> absent the parameter set is left as it was.
\<close>

theorem extra_params_persist:
  assumes "params s = Some p"
    and "0 \<le> RETRY_TOKEN c" and "0 \<le> a1" and "0 \<le> a2"
    and "s1 = state_of (query c t s u1 a1 m1 rw1 (Some e1))"
    and "s2 = state_of (query c t s1 u2 a2 m2 rw2 x2)"
    and "logins s2 = logins s"
  shows "params s1 = Some (dict_update p e1) \<and>
         (\<exists>n. session s1 = replicate n (Send m1 u1 (dict_update p e1)) @ session s) \<and>
         (\<forall>k. map_of (dict_update p e1) k =
                (case map_of (rev e1) k of Some v \<Rightarrow> Some v | None \<Rightarrow> map_of p k)) \<and>
         params s2 =
           Some (dict_update (dict_update p e1) (case x2 of None \<Rightarrow> [] | Some e2 \<Rightarrow> e2)) \<and>
         (\<exists>n. session s2 =
                replicate n (Send m2 u2
                  (dict_update (dict_update p e1) (case x2 of None \<Rightarrow> [] | Some e2 \<Rightarrow> e2)))
                @ session s1) \<and>
         (\<forall>k. map_of (dict_update (dict_update p e1) (case x2 of None \<Rightarrow> [] | Some e2 \<Rightarrow> e2)) k =
                (case map_of (rev (case x2 of None \<Rightarrow> [] | Some e2 \<Rightarrow> e2)) k of
                   Some v \<Rightarrow> Some v
                 | None \<Rightarrow> map_of (dict_update p e1) k)) \<and>
         (x2 = None \<longrightarrow> params s2 = params s1)"
proof -
  have m1: "logins s \<le> logins s1" unfolding assms(5) by (rule query_logins_mono)
  have m2: "logins s1 \<le> logins s2" unfolding assms(6) by (rule query_logins_mono)
  have l1: "logins s1 = logins s" using m1 m2 assms(7) by simp
  have l2: "logins s2 = logins s1" using m1 m2 assms(7) by simp
  have q1: "params s1 = Some (dict_update p e1) \<and>
            (\<exists>n. session s1 = replicate n (Send m1 u1 (dict_update p e1)) @ session s)"
    using query_no_login[OF assms(1) assms(2) assms(3), of t u1 m1 rw1 "Some e1"] l1
    unfolding assms(5) by simp
  then have p1: "params s1 = Some (dict_update p e1)" by blast
  have q2: "params s2 =
              Some (dict_update (dict_update p e1) (case x2 of None \<Rightarrow> [] | Some e2 \<Rightarrow> e2)) \<and>
            (\<exists>n. session s2 =
                replicate n (Send m2 u2
                  (dict_update (dict_update p e1) (case x2 of None \<Rightarrow> [] | Some e2 \<Rightarrow> e2)))
                @ session s1)"
    using query_no_login[OF p1 assms(2) assms(4), of t u2 m2 rw2 x2] l2
    unfolding assms(6) by simp
  have un: "x2 = None \<longrightarrow> params s2 = params s1"
    using q2 p1 by (simp add: dict_update_def)
  show ?thesis
    using q1 q2 un map_of_dict_update by blast
qed

text \<open>
  The theorem at a session the constructor could have left, answered with 200 and an empty
  list: the limit merged by the first call is still there after a second call without
  \<^verbatim>\<open>extra_params\<close>.
\<close>

theorem extra_params_persist_witness:
  "params sample_ring = Some [(''api_version'', JStr ''9''), (''auth_token'', JStr ''tok'')] \<and>
   0 \<le> RETRY_TOKEN sample_const \<and>
   logins (state_of (query sample_const (always 200 (Some (JList [])))
             (state_of (query sample_const (always 200 (Some (JList []))) sample_ring ''/history'' 3
                          ''GET'' False (Some [(''limit'', JStr ''5'')])))
             ''/ring_devices'' 3 ''GET'' False None)) = logins sample_ring \<and>
   params (state_of (query sample_const (always 200 (Some (JList []))) sample_ring ''/history'' 3
                       ''GET'' False (Some [(''limit'', JStr ''5'')]))) =
     Some [(''api_version'', JStr ''9''), (''auth_token'', JStr ''tok''), (''limit'', JStr ''5'')] \<and>
   params (state_of (query sample_const (always 200 (Some (JList [])))
             (state_of (query sample_const (always 200 (Some (JList []))) sample_ring ''/history'' 3
                          ''GET'' False (Some [(''limit'', JStr ''5'')])))
             ''/ring_devices'' 3 ''GET'' False None)) =
     Some [(''api_version'', JStr ''9''), (''auth_token'', JStr ''tok''), (''limit'', JStr ''5'')]"
proof -
  let ?t = "always 200 (Some (JList []))"
  let ?s1 = "state_of (query sample_const ?t sample_ring ''/history'' 3 ''GET'' False
                         (Some [(''limit'', JStr ''5'')]))"
  let ?s2 = "state_of (query sample_const ?t ?s1 ''/ring_devices'' 3 ''GET'' False None)"
  have r: "0 \<le> RETRY_TOKEN sample_const" by (simp add: sample_const_def)
  have a: "(0::int) \<le> 3" by simp
  have l: "logins ?s2 = logins sample_ring"
    apply (subst sample_limit_query)
    apply (simp only: state_of.simps)
    apply (subst sample_follow_up_query)
    apply (simp add: logins_def is_login_def sample_ring_def)
    done
  note w = extra_params_persist[OF sample_ring_params r a a refl refl l]
  have p1: "params ?s1 =
     Some [(''api_version'', JStr ''9''), (''auth_token'', JStr ''tok''), (''limit'', JStr ''5'')]"
    using w by (simp add: dict_update_def)
  have p2: "params ?s2 = params ?s1" using w by blast
  show ?thesis using sample_ring_params r l p1 p2 by simp
qed

text \<open>
  C5 as stated fails: a call of \<^verbatim>\<open>query\<close> with \<^verbatim>\<open>extra_params\<close> does not always merge them. In
  debug mode on a disconnected session \<^verbatim>\<open>query\<close> authenticates first, and when that raises
  the parameter set is as before. On the session the constructor leaves when every login is
  answered with 300 there is no parameter set, and the merge itself raises
  \<^verbatim>\<open>AttributeError\<close>.
\<close>

theorem extra_params_not_merged:
  "query sample_const (always 500 None) stale_ring ''/history''
       (RETRY_TOKEN sample_const) ''GET'' False (Some [(''limit'', JStr ''5'')]) =
     Raise (HTTPError 500)
       (stale_ring\<lparr>session :=
          [Login ''/session'', Login ''/session'', Login ''/session'', Login ''/session'']\<rparr>) \<and>
   params (stale_ring\<lparr>session :=
          [Login ''/session'', Login ''/session'', Login ''/session'', Login ''/session'']\<rparr>) =
     Some [(''api_version'', JStr ''9''), (''auth_token'', JStr ''tok'')] \<and>
   query sample_const (always 300 None) unconnected_ring ''/history''
       (RETRY_TOKEN sample_const) ''GET'' False (Some [(''limit'', JStr ''5'')]) =
     Raise AttributeError unconnected_ring"
proof -
  have q1: "query sample_const (always 500 None) stale_ring ''/history''
       (RETRY_TOKEN sample_const) ''GET'' False (Some [(''limit'', JStr ''5'')]) =
     Raise (HTTPError 500)
       (stale_ring\<lparr>session :=
          [Login ''/session'', Login ''/session'', Login ''/session'', Login ''/session'']\<rparr>)"
    apply (simp add: query_def stale_ring_def authenticate_def)
    apply (subst authenticate_loop.simps, simp add: always_def sample_const_def)
    apply (subst authenticate_loop.simps, simp add: always_def sample_const_def)
    apply (subst authenticate_loop.simps, simp add: always_def sample_const_def)
    apply (subst authenticate_loop.simps, simp add: always_def sample_const_def)
    apply (subst authenticate_loop.simps, simp add: always_def sample_const_def raise_for_status_def)
    done
  have p: "params (stale_ring\<lparr>session :=
          [Login ''/session'', Login ''/session'', Login ''/session'', Login ''/session'']\<rparr>) =
     Some [(''api_version'', JStr ''9''), (''auth_token'', JStr ''tok'')]"
    by (simp add: stale_ring_def)
  have q2: "query sample_const (always 300 None) unconnected_ring ''/history''
       (RETRY_TOKEN sample_const) ''GET'' False (Some [(''limit'', JStr ''5'')]) =
     Raise AttributeError unconnected_ring"
    apply (simp add: query_def unconnected_ring_def)
    apply (subst query_loop.simps)
    apply (simp add: merge_extra_def sample_const_def)
    done
  show ?thesis using q1 p q2 by simp
qed

section \<open>Device handles\<close>

text \<open>
  C6. Both volume setters (chime and doorbell) reject a value that fails the guard of the
  source, \<^verbatim>\<open>isinstance(value, int)\<close> and \<open>min \<le> value \<le> max\<close>: a value that is no integer
  (a \<^verbatim>\<open>bool\<close> is one for \<^verbatim>\<open>isinstance\<close>) or lies outside the bounds. The setter then
  returns \<^verbatim>\<open>False\<close>, the handle and its descriptor are unchanged, and so is the session,
  whose request history shows that nothing was dispatched.
\<close>

theorem volume_setters_reject:
  "(\<not> (\<exists>n txt. as_int v = Some (n, txt) \<and> CHIME_VOL_MIN c \<le> n \<and> n \<le> CHIME_VOL_MAX c) \<longrightarrow>
      chime_set_volume c t dev v s = Return (JBool False, dev) s) \<and>
   (\<not> (\<exists>n txt. as_int v = Some (n, txt) \<and> DOORBELL_VOL_MIN c \<le> n \<and> n \<le> DOORBELL_VOL_MAX c) \<longrightarrow>
      doorbell_set_volume c t dev v s = Return (JBool False, dev) s)"
proof (cases "as_int v")
  case None
  then show ?thesis by (simp add: chime_set_volume_def doorbell_set_volume_def)
next
  case (Some a)
  obtain n tx where a: "a = (n, tx)" by (cases a)
  show ?thesis using Some a
    by (auto simp: chime_set_volume_def doorbell_set_volume_def)
qed

theorem volume_setters_reject_witness:
  "\<not> (\<exists>n txt. as_int (JInt 12) = Some (n, txt) \<and> CHIME_VOL_MIN sample_const \<le> n \<and>
         n \<le> CHIME_VOL_MAX sample_const) \<and>
   \<not> (\<exists>n txt. as_int (JStr ''5'') = Some (n, txt) \<and> DOORBELL_VOL_MIN sample_const \<le> n \<and>
         n \<le> DOORBELL_VOL_MAX sample_const) \<and>
   chime_set_volume sample_const (always 200 None) sample_chime (JInt 12) sample_ring =
     Return (JBool False, sample_chime) sample_ring \<and>
   doorbell_set_volume sample_const (always 200 None) sample_chime (JStr ''5'') sample_ring =
     Return (JBool False, sample_chime) sample_ring"
proof -
  have a: "\<not> (\<exists>n txt. as_int (JInt 12) = Some (n, txt) \<and> CHIME_VOL_MIN sample_const \<le> n \<and>
         n \<le> CHIME_VOL_MAX sample_const)"
    by (simp add: sample_const_def)
  have b: "\<not> (\<exists>n txt. as_int (JStr ''5'') = Some (n, txt) \<and> DOORBELL_VOL_MIN sample_const \<le> n \<and>
         n \<le> DOORBELL_VOL_MAX sample_const)"
    by simp
  show ?thesis
    using a b
      volume_setters_reject[of "JInt 12" sample_const "always 200 None" sample_chime sample_ring]
      volume_setters_reject[of "JStr ''5''" sample_const "always 200 None" sample_chime sample_ring]
    by blast
qed

text \<open>
  C10. \<^verbatim>\<open>history\<close> iterates the result of the query whatever it is: when the query
  soft-fails and returns \<^verbatim>\<open>None\<close>, \<^verbatim>\<open>history\<close> raises (\<^verbatim>\<open>TypeError\<close>, unless the time-zone
  lookup before the loop has raised already) instead of returning an empty result. The
  instance is the doorbell history under a transport that answers 500 to every attempt.
\<close>

theorem history_raises_on_null:
  assumes "account_id dev = Inr aid"
    and "query c t s (history_url c aid) (RETRY_TOKEN c) ''GET'' False
           (Some [(''limit'', JStr (str_int limit))]) = Return (Json JNull) s'"
  shows "history c lib t dev limit tz s =
           Raise (case lookup_timezone lib tz of Inl e \<Rightarrow> e | Inr z \<Rightarrow> TypeError) s'"
  using assms by (simp add: history_def split: sum.splits)

theorem history_raises_on_null_witness:
  "account_id sample_chime = Inr (JInt 5) \<and>
   query sample_const (always 500 None) sample_ring (history_url sample_const (JInt 5))
       (RETRY_TOKEN sample_const) ''GET'' False (Some [(''limit'', JStr (str_int 30))]) =
     Return (Json JNull)
       (sample_ring\<lparr>params := Some [(''api_version'', JStr ''9''), (''auth_token'', JStr ''tok''),
                                   (''limit'', JStr ''30'')],
          session := replicate 4
            (Send ''GET'' ''/history''
               [(''api_version'', JStr ''9''), (''auth_token'', JStr ''tok''),
                (''limit'', JStr ''30'')])\<rparr>) \<and>
   history sample_const sample_timelib (always 500 None) sample_chime 30 None sample_ring =
     Raise TypeError
       (sample_ring\<lparr>params := Some [(''api_version'', JStr ''9''), (''auth_token'', JStr ''tok''),
                                   (''limit'', JStr ''30'')],
          session := replicate 4
            (Send ''GET'' ''/history''
               [(''api_version'', JStr ''9''), (''auth_token'', JStr ''tok''),
                (''limit'', JStr ''30'')])\<rparr>)"
proof -
  have a: "account_id sample_chime = Inr (JInt 5)"
    by (simp add: account_id_def sample_chime_def)
  have t: "\<forall>h. \<exists>r. always 500 None
              (Send ''GET'' (history_url sample_const (JInt 5))
                 (dict_update [(''api_version'', JStr ''9''), (''auth_token'', JStr ''tok'')]
                    (case Some [(''limit'', JStr (str_int 30))] of None \<Rightarrow> [] | Some e \<Rightarrow> e)) # h) =
              Returns r \<and> status_code r \<noteq> 200 \<and>
              status_code r \<noteq> 204 \<and> status_code r \<noteq> 401"
    by (simp add: always_def)
  have g: "''GET'' = ''GET'' \<or> ''GET'' = ''PUT'' \<or> ''GET'' = ''POST''" by simp
  have r: "0 \<le> RETRY_TOKEN sample_const" by (simp add: sample_const_def)
  have q: "query sample_const (always 500 None) sample_ring (history_url sample_const (JInt 5))
       (RETRY_TOKEN sample_const) ''GET'' False (Some [(''limit'', JStr (str_int 30))]) =
     Return (Json JNull)
       (sample_ring\<lparr>params := Some [(''api_version'', JStr ''9''), (''auth_token'', JStr ''tok''),
                                   (''limit'', JStr ''30'')],
          session := replicate 4
            (Send ''GET'' ''/history''
               [(''api_version'', JStr ''9''), (''auth_token'', JStr ''tok''),
                (''limit'', JStr ''30'')])\<rparr>)"
    using query_exhaust[where c = sample_const and rw = False,
        OF t g sample_ring_params sample_ring_quiet r]
    by (simp add: str_int_30 dict_update_def sample_ring_def sample_const_def)
  show ?thesis
    using a q history_raises_on_null[OF a q, of sample_timelib None]
    by (simp add: lookup_timezone_def)
qed

text \<open>
  C7. The claim holds of a query that returns \<^verbatim>\<open>None\<close>, and fails where the returned dict
  lacks the family key: \<^verbatim>\<open>.get\<close> then yields \<^verbatim>\<open>None\<close>, iterating it raises \<^verbatim>\<open>TypeError\<close>,
  and \<^verbatim>\<open>__devices\<close> catches \<^verbatim>\<open>AttributeError\<close> only. Under a transport that answers the
  device list with the empty dict, both listings raise \<^verbatim>\<open>TypeError\<close>.
\<close>

theorem devices_missing_family_key_raises:
  "private_devices sample_const (always 200 (Some (JObj []))) sample_ring ''chime'' =
     Raise TypeError
       (sample_ring\<lparr>session := [Send ''GET'' ''/ring_devices''
          [(''api_version'', JStr ''9''), (''auth_token'', JStr ''tok'')]]\<rparr>) \<and>
   private_devices sample_const (always 200 (Some (JObj []))) sample_ring ''doorbell'' =
     Raise TypeError
       (sample_ring\<lparr>session := [Send ''GET'' ''/ring_devices''
          [(''api_version'', JStr ''9''), (''auth_token'', JStr ''tok'')]]\<rparr>)"
  by (simp add: private_devices_def devices_block_def sample_devices_query
      except_AttributeError_def)

text \<open>
  C8. A handle whose name is not in the family sub-list keeps its descriptor unset, as
  the claim says; but each of the eight read accessors then raises \<^verbatim>\<open>AttributeError\<close>,
  since it calls \<^verbatim>\<open>.get\<close> on \<^verbatim>\<open>None\<close>. The instance is a chime named Porch where the
  device list holds only a chime named Hall.
\<close>

theorem accessors_raise_on_unset_descriptor:
  "RingChime_init sample_const (always 200 (Some hall_devices)) (JStr ''Porch'') sample_ring =
     Return porch_chime
       (sample_ring\<lparr>session := [Send ''GET'' ''/ring_devices''
          [(''api_version'', JStr ''9''), (''auth_token'', JStr ''tok'')]]\<rparr>) \<and>
   account_id porch_chime = Inl AttributeError \<and>
   address porch_chime = Inl AttributeError \<and>
   firmware porch_chime = Inl AttributeError \<and>
   device_id porch_chime = Inl AttributeError \<and>
   latitude porch_chime = Inl AttributeError \<and>
   longitude porch_chime = Inl AttributeError \<and>
   kind porch_chime = Inl AttributeError \<and>
   timezone porch_chime = Inl AttributeError"
proof -
  have "RingChime_init sample_const (always 200 (Some hall_devices)) (JStr ''Porch'') sample_ring =
     Return porch_chime
       (sample_ring\<lparr>session := [Send ''GET'' ''/ring_devices''
          [(''api_version'', JStr ''9''), (''auth_token'', JStr ''tok'')]]\<rparr>)"
    by (simp add: RingChime_init_def update_def get_attrs_def sample_devices_query)
       (simp add: locator_def hall_devices_def porch_chime_def sample_ring_def sample_const_def)
  then show ?thesis
    by (simp add: porch_chime_def account_id_def address_def firmware_def device_id_def
        latitude_def longitude_def kind_def timezone_def)
qed

end
